theory Spec2Isabelle
  imports Complex_Main "HOL-Library.Word"
begin

section \<open>Numeric conventions\<close>

text \<open>
  The receiver computes in \<open>float\<close> and \<open>double\<close>. Both are modelled as \<open>real\<close>:
  rounding error is not modelled, and a step that would produce a non-finite value
  (a division by zero) is an error value of the model. Integer counters keep their
  machine width where the code's arithmetic can wrap.
\<close>

datatype error = Out_Of_Range | Division_By_Zero

text \<open>C's \<open>round\<close>: to the nearest integer, halfway cases away from zero.\<close>

definition cround :: "real \<Rightarrow> int" where
  "cround x = (if 0 \<le> x then \<lfloor>x + 1 / 2\<rfloor> else \<lceil>x - 1 / 2\<rceil>)"

text \<open>Conversion of a floating value to an integer type: truncation towards zero.\<close>

definition ctrunc :: "real \<Rightarrow> int" where
  "ctrunc x = (if 0 \<le> x then \<lfloor>x\<rfloor> else \<lceil>x\<rceil>)"

text \<open>C's \<open>fmod\<close>: the remainder has the sign of the dividend.\<close>

definition fmod :: "real \<Rightarrow> real \<Rightarrow> real" where
  "fmod x y = x - y * of_int (ctrunc (x / y))"

section \<open>The synchronization record\<close>

record Gnss_Synchro =
  PRN :: nat
  Acq_delay_samples :: real
  Acq_doppler_hz :: real
  Acq_samplestamp_samples :: "64 word"
  Prompt_I :: real
  Prompt_Q :: real
  Tracking_timestamp_secs :: real
  Carrier_phase_rads :: real
  Carrier_Doppler_hz :: real
  Code_phase_secs :: real
  CN0_dB_hz :: real
  Flag_valid_tracking :: bool

section \<open>Acquisition: \<open>pcps_sd_acquisition_cc\<close>\<close>

text \<open>
  The block's configuration (constructor arguments and setters) and its mutable
  members. \<open>d_num_doppler_bins\<close> is what \<open>init()\<close> counted.
\<close>

record acq_params =
  d_fft_size :: nat
  d_samples_per_code :: nat
  d_max_dwells :: nat
  d_doppler_max :: nat
  d_doppler_step :: nat
  d_num_doppler_bins :: nat
  d_threshold :: real
  d_bit_transition_flag :: bool
  d_peak :: nat

record acq_state =
  d_state :: nat
  d_active :: bool
  d_well_count :: nat
  d_mag :: real
  d_mag_2nd_highest :: real
  d_input_power :: real
  d_test_statistics :: real
  acq_sample_counter :: "64 word"
  d_gnss_synchro :: Gnss_Synchro
  d_channel_internal_queue :: "int list"

text \<open>
  What one call of \<open>general_work\<close> reads: the number of input items, the input block,
  and, for each Doppler index, the squared magnitudes of the inverse FFT (the FFT
  library's result for that bin, \<open>d_fft_size\<close> floats).
\<close>

record acq_input =
  ninput_items :: nat
  in_samples :: "complex list"
  ifft_magnitude :: "nat \<Rightarrow> real list"

text \<open>An entry of the \<open>peaks\<close> map: the values stored under the three string keys.\<close>

record peak_values =
  code_phase :: real
  doppler :: real
  sample_counter :: real

text \<open>
  \<open>std::map<double, ...>\<close>: an association list kept in ascending key order;
  \<open>peaks[k] = v\<close> replaces the entry of an equal key.
\<close>

fun map_put :: "real \<Rightarrow> 'v \<Rightarrow> (real \<times> 'v) list \<Rightarrow> (real \<times> 'v) list" where
  "map_put k v [] = [(k, v)]"
| "map_put k v ((k', v') # m) =
     (if k < k' then (k, v) # (k', v') # m
      else if k = k' then (k, v) # m
      else (k', v') # map_put k v m)"

text \<open>
  \<open>volk_32f_index_max_16u\<close>: the index of the first maximum; the index stays 0 on
  an empty buffer.
\<close>

fun index_max_from :: "real list \<Rightarrow> nat \<Rightarrow> nat \<Rightarrow> real \<Rightarrow> nat" where
  "index_max_from [] i best bv = best"
| "index_max_from (x # xs) i best bv =
     (if bv < x then index_max_from xs (Suc i) i x else index_max_from xs (Suc i) best bv)"

definition index_max :: "real list \<Rightarrow> nat" where
  "index_max xs = (case xs of [] \<Rightarrow> 0 | x # r \<Rightarrow> index_max_from r 1 0 x)"

text \<open>\<open>fft_normalization_factor = (float)d_fft_size * (float)d_fft_size\<close>.\<close>

definition fft_normalization_factor :: "acq_params \<Rightarrow> real" where
  "fft_normalization_factor p = real (d_fft_size p) * real (d_fft_size p)"

text \<open>Step 1 of the dwell: the mean of \<open>|in[i]|\<^sup>2\<close> over the block.\<close>

definition input_power_estimation :: "acq_params \<Rightarrow> complex list \<Rightarrow> real" where
  "input_power_estimation p xs =
     sum_list (map (\<lambda>z. Re z * Re z + Im z * Im z) (take (d_fft_size p) xs)) / real (d_fft_size p)"

text \<open>
  The inner loop over \<open>i < d_fft_size\<close> of one Doppler bin: every magnitude above
  \<open>threshold_spoofing\<close> is stored in \<open>peaks\<close> under its normalized value.
\<close>

fun collect_peaks ::
  "acq_params \<Rightarrow> real \<Rightarrow> int \<Rightarrow> 64 word \<Rightarrow> real list \<Rightarrow> nat \<Rightarrow>
   (real \<times> peak_values) list \<Rightarrow> (real \<times> peak_values) list" where
  "collect_peaks p threshold_spoofing dop sc [] i peaks = peaks"
| "collect_peaks p threshold_spoofing dop sc (m # ms) i peaks =
     collect_peaks p threshold_spoofing dop sc ms (Suc i)
       (if threshold_spoofing < m
        then map_put (m / (fft_normalization_factor p * fft_normalization_factor p))
               \<lparr>code_phase = real (i mod d_samples_per_code p),
                doppler = real_of_int dop,
                sample_counter = real (unat sc)\<rparr> peaks
        else peaks)"

text \<open>
  The body of the Doppler loop for index \<open>doppler_index\<close>. Reading
  \<open>d_magnitude[indext]\<close> needs a non-empty buffer; the division
  \<open>d_mag / d_input_power\<close> is evaluated whenever a new maximum is found.
\<close>

definition doppler_bin ::
  "acq_params \<Rightarrow> acq_input \<Rightarrow> real \<Rightarrow> nat \<Rightarrow>
   (real \<times> peak_values) list \<times> acq_state \<Rightarrow> error + ((real \<times> peak_values) list \<times> acq_state)" where
  "doppler_bin p inp threshold_spoofing doppler_index ps =
     (let peaks = fst ps; s = snd ps;
          dop = - int (d_doppler_max p) + int (d_doppler_step p) * int doppler_index;
          d_magnitude = ifft_magnitude inp doppler_index
      in if d_fft_size p = 0 \<or> length d_magnitude < d_fft_size p then Inl Out_Of_Range
         else
           let mags = take (d_fft_size p) d_magnitude;
               indext = index_max mags;
               magt = mags ! indext / (fft_normalization_factor p * fft_normalization_factor p);
               peaks' = collect_peaks p threshold_spoofing dop (acq_sample_counter s) mags 0 peaks
           in if d_mag s < magt
              then if d_input_power s = 0 then Inl Division_By_Zero
                   else
                     let s1 = s\<lparr>d_mag_2nd_highest := d_mag s, d_mag := magt\<rparr>
                     in if d_test_statistics s1 < d_mag s1 / d_input_power s1 \<or> \<not> d_bit_transition_flag p
                        then Inr (peaks',
                               s1\<lparr>d_gnss_synchro := (d_gnss_synchro s1)
                                     \<lparr>Acq_delay_samples := real (indext mod d_samples_per_code p),
                                      Acq_doppler_hz := real_of_int dop,
                                      Acq_samplestamp_samples := acq_sample_counter s1\<rparr>,
                                  d_test_statistics := d_mag s1 / d_input_power s1\<rparr>)
                        else Inr (peaks', s1)
              else Inr (peaks', s))"

text \<open>The Doppler loop: \<open>doppler_index\<close> runs from \<open>k\<close> for \<open>n\<close> more bins.\<close>

fun doppler_loop ::
  "acq_params \<Rightarrow> acq_input \<Rightarrow> real \<Rightarrow> nat \<Rightarrow> nat \<Rightarrow>
   (real \<times> peak_values) list \<times> acq_state \<Rightarrow> error + ((real \<times> peak_values) list \<times> acq_state)" where
  "doppler_loop p inp threshold_spoofing k 0 ps = Inr ps"
| "doppler_loop p inp threshold_spoofing k (Suc n) ps =
     (case doppler_bin p inp threshold_spoofing k ps of
        Inl e \<Rightarrow> Inl e
      | Inr ps' \<Rightarrow> doppler_loop p inp threshold_spoofing (Suc k) n ps')"

text \<open>
  The test of a candidate against the already selected peaks. The source reads both
  \<open>next_code_phase\<close> and \<open>next_doppler\<close> from \<open>it->first\<close>.
\<close>

definition use_this_peak :: "acq_params \<Rightarrow> (int \<times> int) list \<Rightarrow> peak_values \<Rightarrow> bool" where
  "use_this_peak p higher_peaks values =
     list_all (\<lambda>it. let next_code_phase = fst it; next_doppler = fst it
                    in \<not> (\<bar>real_of_int next_code_phase - code_phase values\<bar>
                              < real (2 * d_samples_per_code p)
                          \<and> real_of_int next_doppler = doppler values))
       higher_peaks"

text \<open>
  The loop over \<open>peaks\<close> from the largest key down. The first \<open>d_peak\<close> entries go
  into the set \<open>higher_peaks\<close>; the first later entry that passes the test is returned.
\<close>

fun select_peak ::
  "acq_params \<Rightarrow> nat \<Rightarrow> (int \<times> int) list \<Rightarrow> (real \<times> peak_values) list \<Rightarrow>
   (real \<times> peak_values) option" where
  "select_peak p i higher_peaks [] = None"
| "select_peak p i higher_peaks ((key, values) # rest) =
     (if i < d_peak p
      then select_peak p (i + 1)
             (List.insert (ctrunc (code_phase values), ctrunc (doppler values)) higher_peaks) rest
      else if use_this_peak p higher_peaks values then Some (key, values)
      else select_peak p i higher_peaks rest)"

text \<open>The auxiliary-peak block; the result carries \<open>found_peak\<close>.\<close>

definition auxiliary_peaks ::
  "acq_params \<Rightarrow> (real \<times> peak_values) list \<Rightarrow> acq_state \<Rightarrow> error + (bool \<times> acq_state)" where
  "auxiliary_peaks p peaks s =
     (if 1 < d_peak p \<and> peaks \<noteq> []
      then (case select_peak p 0 [] (rev peaks) of
              None \<Rightarrow> Inr (False, s)
            | Some (key, values) \<Rightarrow>
                if d_input_power s = 0 then Inl Division_By_Zero
                else Inr (True,
                       s\<lparr>d_test_statistics := key / d_input_power s,
                         d_gnss_synchro := (d_gnss_synchro s)
                           \<lparr>Acq_delay_samples := code_phase values,
                            Acq_doppler_hz := doppler values,
                            Acq_samplestamp_samples := word_of_int (ctrunc (sample_counter values))\<rparr>\<rparr>))
      else Inr (False, s))"

text \<open>The decision at the end of a dwell.\<close>

definition decide :: "acq_params \<Rightarrow> bool \<Rightarrow> acq_state \<Rightarrow> acq_state" where
  "decide p found_peak s =
     (let acquire_auxiliary_peaks = (1 < d_peak p)
      in if \<not> d_bit_transition_flag p
         then if acquire_auxiliary_peaks \<and> \<not> found_peak then s\<lparr>d_state := 3\<rparr>
              else if d_threshold p < d_test_statistics s then s\<lparr>d_state := 2\<rparr>
              else if d_well_count s = d_max_dwells p then s\<lparr>d_state := 3\<rparr>
              else s
         else if d_well_count s = d_max_dwells p
              then if acquire_auxiliary_peaks \<and> \<not> found_peak then s\<lparr>d_state := 3\<rparr>
                   else if d_threshold p < d_test_statistics s then s\<lparr>d_state := 2\<rparr>
                   else s\<lparr>d_state := 3\<rparr>
              else s)"

text \<open>
  Case 1 of \<open>general_work\<close>, one dwell. Its first part resets the per-dwell
  variables, advances the counters (\<open>d_well_count\<close> is an \<open>unsigned int\<close>) and
  estimates the input power.
\<close>

definition dwell_start :: "acq_params \<Rightarrow> acq_input \<Rightarrow> acq_state \<Rightarrow> acq_state" where
  "dwell_start p inp s =
     s\<lparr>d_mag := 0, d_mag_2nd_highest := 0,
       acq_sample_counter := acq_sample_counter s + word_of_nat (d_fft_size p),
       d_well_count := (d_well_count s + 1) mod 2 ^ 32,
       d_input_power := input_power_estimation p (in_samples inp)\<rparr>"

definition threshold_spoofing :: "acq_params \<Rightarrow> acq_state \<Rightarrow> real" where
  "threshold_spoofing p s =
     d_threshold p * d_input_power s * (fft_normalization_factor p * fft_normalization_factor p)"

definition dwell :: "acq_params \<Rightarrow> acq_input \<Rightarrow> acq_state \<Rightarrow> error + acq_state" where
  "dwell p inp s =
     (if d_fft_size p = 0 then Inl Division_By_Zero
      else
        let s1 = dwell_start p inp s
        in case doppler_loop p inp (threshold_spoofing p s1) 0 (d_num_doppler_bins p) ([], s1) of
             Inl e \<Rightarrow> Inl e
           | Inr (peaks, s2) \<Rightarrow>
               (case auxiliary_peaks p peaks s2 of
                  Inl e \<Rightarrow> Inl e
                | Inr (found_peak, s3) \<Rightarrow> Inr (decide p found_peak s3)))"

text \<open>
  \<open>general_work\<close>: the state machine. States 2 and 3 post the acquisition message
  and return to state 0. The product \<open>d_fft_size * ninput_items[0]\<close> is computed in
  32 bits.
\<close>

definition acq_general_work :: "acq_params \<Rightarrow> acq_input \<Rightarrow> acq_state \<Rightarrow> error + acq_state" where
  "acq_general_work p inp s =
     (let skipped = acq_sample_counter s + word_of_nat ((d_fft_size p * ninput_items inp) mod 2 ^ 32)
      in if d_state s = 0
         then Inr ((if d_active s
                    then s\<lparr>d_gnss_synchro := (d_gnss_synchro s)
                              \<lparr>Acq_delay_samples := 0, Acq_doppler_hz := 0, Acq_samplestamp_samples := 0\<rparr>,
                           d_well_count := 0, d_mag := 0, d_mag_2nd_highest := 0,
                           d_input_power := 0, d_test_statistics := 0, d_state := 1\<rparr>
                    else s)\<lparr>acq_sample_counter := skipped\<rparr>)
         else if d_state s = 1 then dwell p inp s
         else if d_state s = 2
         then Inr (s\<lparr>d_active := False, d_state := 0, acq_sample_counter := skipped,
                     d_channel_internal_queue := d_channel_internal_queue s @ [1]\<rparr>)
         else if d_state s = 3
         then Inr (s\<lparr>d_active := False, d_state := 0, acq_sample_counter := skipped,
                     d_channel_internal_queue := d_channel_internal_queue s @ [2]\<rparr>)
         else Inr s)"

section \<open>Tracking: \<open>Gps_L1_Ca_Dll_Pll_CADLL_Tracking_cc\<close>\<close>

subsection \<open>Constants and configuration\<close>

definition CN0_ESTIMATION_SAMPLES :: int where
  "CN0_ESTIMATION_SAMPLES = 20"

definition MINIMUM_VALID_CN0 :: real where
  "MINIMUM_VALID_CN0 = 25"

definition MAXIMUM_LOCK_FAIL_COUNTER :: int where
  "MAXIMUM_LOCK_FAIL_COUNTER = 50"

definition CARRIER_LOCK_THRESHOLD :: real where
  "CARRIER_LOCK_THRESHOLD = 85 / 100"

text \<open>
  Modelled from the spec: \<open>GPS_L1_CA.h\<close> is not among the sources. The spec gives
  the length of the C/A code as 1023 chips.
\<close>

definition GPS_L1_CA_CODE_LENGTH_CHIPS :: real where
  "GPS_L1_CA_CODE_LENGTH_CHIPS = 1023"

text \<open>
  Modelled from the spec: \<open>GPS_L1_CA.h\<close> is not among the sources. The spec writes
  the angle constant as \<open>2\<pi>\<close>.
\<close>

definition GPS_TWO_PI :: real where
  "GPS_TWO_PI = 2 * pi"

text \<open>
  The configuration of a tracking block. The remaining constants of \<open>GPS_L1_CA.h\<close>,
  whose values the spec does not give, are parameters. \<open>d_queue_present\<close> says that
  \<open>d_queue\<close> is not the null pointer.
\<close>

record trk_params =
  d_fs_in :: int
  d_vector_length :: nat
  d_early_late_spc_chips :: real
  d_channel :: nat
  d_queue_present :: bool
  GPS_L1_FREQ_HZ :: real
  GPS_L1_CA_CODE_RATE_HZ :: real
  GPS_L1_CA_CODE_PERIOD :: real

record trk_state =
  d_enable_tracking :: bool
  d_pull_in :: bool
  CADLL_init :: bool
  d_sample_counter :: "64 word"
  d_sample_counter_m :: "64 word"
  d_sample_counter_f :: real
  d_sample_counter_fm :: real
  d_acq_sample_stamp :: "64 word"
  d_acq_code_phase_samples :: real
  d_acq_carrier_doppler_hz :: real
  d_code_phase_samples :: real
  d_carrier_doppler_hz :: real
  d_code_freq_chips :: real
  d_rem_code_phase_samples :: real
  d_rem_code_phase_samples_m :: real
  d_rem_carr_phase_rad :: real
  d_acc_carrier_phase_rad :: real
  d_acc_code_phase_secs :: real
  d_acc_code_phase_secs_m :: real
  d_current_prn_length_samples :: int
  d_current_prn_length_samples_m :: int
  a1 :: real
  a2 :: real
  d_cn0_estimation_counter :: int
  d_Prompt_buffer :: "complex list"
  d_carrier_lock_test :: real
  d_CN0_SNV_dB_Hz :: real
  d_carrier_lock_fail_counter :: int
  d_carrier_lock_threshold :: real
  d_ca_code :: "complex list"
  d_queue :: "(nat \<times> int) list"

text \<open>
  What one call of \<open>general_work\<close> reads from outside the block: the number of
  available samples, the shared acquisition record, the six correlator outputs and the
  amplitude residual \<open>corr\<close> written by the correlator (\<open>Prompt_isnan\<close> holds when a
  component of the prompt output is NaN), and the responses of the loop filters and of
  the CN0 and lock estimators, which live in other files.
\<close>

record trk_input =
  trk_ninput_items :: int
  acquisition_gnss_synchro :: Gnss_Synchro
  d_Early :: complex
  d_Prompt :: complex
  d_Late :: complex
  d_Early_m :: complex
  d_Prompt_m :: complex
  d_Late_m :: complex
  Prompt_isnan :: bool
  corr_CADLL :: real
  get_carrier_nco :: "real \<Rightarrow> real"
  get_code_nco :: "real \<Rightarrow> real"
  get_code_nco_m :: "real \<Rightarrow> real"
  get_amplitude_nco :: "real \<Rightarrow> real"
  get_amplitude_nco_m :: "real \<Rightarrow> real"
  cn0_svn_estimator :: "complex list \<Rightarrow> real"
  carrier_lock_detector :: "complex list \<Rightarrow> real"

subsection \<open>Discriminators\<close>

text \<open>C's \<open>atan2\<close>.\<close>

definition atan2 :: "real \<Rightarrow> real \<Rightarrow> real" where
  "atan2 y x =
     (if 0 < x then arctan (y / x)
      else if x < 0 \<and> 0 \<le> y then arctan (y / x) + pi
      else if x < 0 then arctan (y / x) - pi
      else if 0 < y then pi / 2
      else if y < 0 then - (pi / 2)
      else 0)"

text \<open>
  Modelled from the spec: \<open>tracking_discriminators.cc\<close> is not among the sources.
  The spec defines \<open>pll_cloop_two_quadrant_atan(prompt) = atan2(prompt.imag,
  prompt.real) / (2\<pi>)\<close>.
\<close>

definition pll_cloop_two_quadrant_atan :: "complex \<Rightarrow> real" where
  "pll_cloop_two_quadrant_atan prompt = atan2 (Im prompt) (Re prompt) / (2 * pi)"

text \<open>
  Modelled from the spec: \<open>tracking_discriminators.cc\<close> is not among the sources.
  The spec defines \<open>dll_nc_e_minus_l_normalized(E, L) = (|E| - |L|) / (|E| + |L|)\<close>;
  the quotient does not exist when both correlators are zero.
\<close>

definition dll_nc_e_minus_l_normalized :: "complex \<Rightarrow> complex \<Rightarrow> error + real" where
  "dll_nc_e_minus_l_normalized E L =
     (if cmod E + cmod L = 0 then Inl Division_By_Zero
      else Inr ((cmod E - cmod L) / (cmod E + cmod L)))"

subsection \<open>\<open>start_tracking\<close>\<close>

text \<open>
  \<open>gps_l1_ca_code_gen_complex(&d_ca_code[1], PRN, 0)\<close> writes the generated chips
  from index 1 on; the generator is in another file and its output is an argument.
\<close>

definition write_code :: "complex list \<Rightarrow> complex list \<Rightarrow> error + complex list" where
  "write_code ca chips =
     (if length ca < 1 + length chips then Inl Out_Of_Range
      else Inr (take 1 ca @ chips @ drop (1 + length chips) ca))"

text \<open>The table write \<open>ca[i] = ca[j]\<close> with both indices checked.\<close>

definition copy_chip :: "complex list \<Rightarrow> nat \<Rightarrow> nat \<Rightarrow> error + complex list" where
  "copy_chip ca i j =
     (if i < length ca \<and> j < length ca then Inr (ca[i := ca ! j]) else Inl Out_Of_Range)"

text \<open>
  The three table writes of \<open>start_tracking\<close>: the generated chips from index 1,
  then \<open>d_ca_code[0] = d_ca_code[1023]\<close> and \<open>d_ca_code[1024] = d_ca_code[1]\<close>.
\<close>

definition seed_ca_code :: "complex list \<Rightarrow> complex list \<Rightarrow> error + complex list" where
  "seed_ca_code ca chips =
     (case write_code ca chips of
        Inl e \<Rightarrow> Inl e
      | Inr ca1 \<Rightarrow>
          (case copy_chip ca1 0 (nat (ctrunc GPS_L1_CA_CODE_LENGTH_CHIPS)) of
             Inl e \<Rightarrow> Inl e
           | Inr ca2 \<Rightarrow> copy_chip ca2 (nat (ctrunc GPS_L1_CA_CODE_LENGTH_CHIPS + 1)) 1))"

text \<open>
  \<open>start_tracking\<close>, given the shared acquisition record and the generated chips.
  The calls that initialize the loop filters act on objects outside the model. The
  function does not assign \<open>CADLL_init\<close> or \<open>d_acc_code_phase_secs_m\<close>.
\<close>

definition start_tracking ::
  "trk_params \<Rightarrow> Gnss_Synchro \<Rightarrow> complex list \<Rightarrow> trk_state \<Rightarrow> error + trk_state" where
  "start_tracking p acq chips s =
     (let fs = real_of_int (d_fs_in p);
          acq_code_phase = Acq_delay_samples acq;
          acq_doppler = Acq_doppler_hz acq;
          acq_stamp = Acq_samplestamp_samples acq;
          acq_trk_diff_samples = sint (d_sample_counter s) - sint acq_stamp
      in if fs = 0 \<or> GPS_L1_FREQ_HZ p = 0 \<or> GPS_L1_CA_CODE_RATE_HZ p = 0 then Inl Division_By_Zero
         else
           let acq_trk_diff_seconds = real_of_int acq_trk_diff_samples / fs;
               radial_velocity = (GPS_L1_FREQ_HZ p + acq_doppler) / GPS_L1_FREQ_HZ p;
               code_freq = radial_velocity * GPS_L1_CA_CODE_RATE_HZ p
           in if code_freq = 0 then Inl Division_By_Zero
              else
                let T_chip_mod_seconds = 1 / code_freq;
                    T_prn_mod_seconds = T_chip_mod_seconds * GPS_L1_CA_CODE_LENGTH_CHIPS;
                    T_prn_mod_samples = T_prn_mod_seconds * fs;
                    T_prn_true_seconds = GPS_L1_CA_CODE_LENGTH_CHIPS / GPS_L1_CA_CODE_RATE_HZ p;
                    T_prn_true_samples = T_prn_true_seconds * fs;
                    T_prn_diff_seconds = T_prn_true_seconds - T_prn_mod_seconds;
                    N_prn_diff = acq_trk_diff_seconds / T_prn_true_seconds;
                    phase0 = fmod (acq_code_phase + T_prn_diff_seconds * N_prn_diff * fs) T_prn_true_samples;
                    corrected_acq_phase_samples =
                      (if phase0 < 0 then T_prn_mod_samples + phase0 else phase0)
                in case seed_ca_code (d_ca_code s) chips of
                     Inl e \<Rightarrow> Inl e
                   | Inr ca \<Rightarrow>
                       Inr (s\<lparr>d_acq_code_phase_samples := corrected_acq_phase_samples,
                              d_acq_carrier_doppler_hz := acq_doppler,
                              d_acq_sample_stamp := acq_stamp,
                              d_code_freq_chips := code_freq,
                              d_current_prn_length_samples := cround T_prn_mod_samples,
                              d_current_prn_length_samples_m := cround T_prn_mod_samples,
                              d_carrier_doppler_hz := acq_doppler,
                              d_carrier_lock_fail_counter := 0,
                              d_rem_code_phase_samples := 0,
                              d_rem_code_phase_samples_m := 0,
                              d_rem_carr_phase_rad := 0,
                              d_acc_carrier_phase_rad := 0,
                              d_acc_code_phase_secs := 0,
                              d_code_phase_samples := corrected_acq_phase_samples,
                              d_ca_code := ca,
                              d_pull_in := True,
                              d_enable_tracking := True\<rparr>))"

subsection \<open>Local code replicas\<close>

text \<open>
  The loop of \<open>update_local_code\<close>: \<open>n\<close> more iterations from code phase \<open>tcode\<close>.
  Each iteration reads \<open>d_ca_code[associated_chip_index]\<close>.
\<close>

fun epl_loop :: "complex list \<Rightarrow> real \<Rightarrow> real \<Rightarrow> nat \<Rightarrow> real \<Rightarrow> error + complex list" where
  "epl_loop ca spc step 0 tcode_chips = Inr []"
| "epl_loop ca spc step (Suc n) tcode_chips =
     (let associated_chip_index =
            1 + cround (fmod (tcode_chips - spc) (real_of_int (ctrunc GPS_L1_CA_CODE_LENGTH_CHIPS)))
      in if associated_chip_index < 0 \<or> int (length ca) \<le> associated_chip_index
         then Inl Out_Of_Range
         else (case epl_loop ca spc step n (tcode_chips + step) of
                 Inl e \<Rightarrow> Inl e
               | Inr early \<Rightarrow> Inr (ca ! nat associated_chip_index # early)))"

text \<open>
  The loop of \<open>update_local_code_m\<close>, which moves a negative index up by 1023
  before the read.
\<close>

fun epl_loop_m :: "complex list \<Rightarrow> real \<Rightarrow> real \<Rightarrow> nat \<Rightarrow> real \<Rightarrow> error + complex list" where
  "epl_loop_m ca spc step 0 tcode_chips = Inr []"
| "epl_loop_m ca spc step (Suc n) tcode_chips =
     (let index0 =
            1 + cround (fmod (tcode_chips - spc) (real_of_int (ctrunc GPS_L1_CA_CODE_LENGTH_CHIPS)));
          associated_chip_index = (if index0 < 0 then 1023 + index0 else index0)
      in if associated_chip_index < 0 \<or> int (length ca) \<le> associated_chip_index
         then Inl Out_Of_Range
         else (case epl_loop_m ca spc step n (tcode_chips + step) of
                 Inl e \<Rightarrow> Inl e
               | Inr early \<Rightarrow> Inr (ca ! nat associated_chip_index # early)))"

text \<open>
  Both functions return the early, prompt and late replicas; prompt and late are
  copied out of the early buffer at offsets of one and two early-late spacings.
\<close>

definition update_local_code ::
  "trk_params \<Rightarrow> trk_state \<Rightarrow> error + (complex list \<times> complex list \<times> complex list)" where
  "update_local_code p s =
     (if d_fs_in p = 0 then Inl Division_By_Zero
      else
        let code_phase_step_chips = d_code_freq_chips s / real_of_int (d_fs_in p);
            rem_code_phase_chips =
              d_rem_code_phase_samples s * (d_code_freq_chips s / real_of_int (d_fs_in p));
            tcode_chips = - rem_code_phase_chips
        in if code_phase_step_chips = 0 then Inl Division_By_Zero
           else
             let early_late_spc_samples = cround (d_early_late_spc_chips p / code_phase_step_chips);
                 epl_loop_length_samples = d_current_prn_length_samples s + early_late_spc_samples * 2
             in case epl_loop (d_ca_code s) (d_early_late_spc_chips p) code_phase_step_chips
                       (nat epl_loop_length_samples) tcode_chips of
                  Inl e \<Rightarrow> Inl e
                | Inr early \<Rightarrow>
                    Inr (early,
                         take (nat (d_current_prn_length_samples s)) (drop (nat early_late_spc_samples) early),
                         take (nat (d_current_prn_length_samples s))
                           (drop (nat (early_late_spc_samples * 2)) early)))"

definition update_local_code_m ::
  "trk_params \<Rightarrow> trk_state \<Rightarrow> error + (complex list \<times> complex list \<times> complex list)" where
  "update_local_code_m p s =
     (if d_fs_in p = 0 then Inl Division_By_Zero
      else
        let code_phase_step_chips = d_code_freq_chips s / real_of_int (d_fs_in p);
            rem_code_phase_chips =
              d_rem_code_phase_samples_m s * (d_code_freq_chips s / real_of_int (d_fs_in p));
            tcode_chips = - rem_code_phase_chips
        in if code_phase_step_chips = 0 then Inl Division_By_Zero
           else
             let early_late_spc_samples = cround (d_early_late_spc_chips p / code_phase_step_chips);
                 epl_loop_length_samples = d_current_prn_length_samples_m s + early_late_spc_samples * 2
             in case epl_loop_m (d_ca_code s) (d_early_late_spc_chips p) code_phase_step_chips
                       (nat epl_loop_length_samples) tcode_chips of
                  Inl e \<Rightarrow> Inl e
                | Inr early \<Rightarrow>
                    Inr (early,
                         take (nat (d_current_prn_length_samples_m s)) (drop (nat early_late_spc_samples) early),
                         take (nat (d_current_prn_length_samples_m s))
                           (drop (nat (early_late_spc_samples * 2)) early)))"

subsection \<open>\<open>general_work\<close>\<close>

text \<open>
  Receiver signal alignment on the first call after \<open>start_tracking\<close>. The result
  carries the number of samples consumed; no output record is written.
  \<open>acq_to_trk_delay_samples\<close> is an \<open>int\<close>.
\<close>

definition pull_in :: "trk_params \<Rightarrow> trk_state \<Rightarrow> error + (trk_state \<times> int)" where
  "pull_in p s =
     (let acq_to_trk_delay_samples =
            sint (ucast (d_sample_counter s - d_acq_sample_stamp s) :: 32 word)
      in if d_current_prn_length_samples s = 0 then Inl Division_By_Zero
         else
           let acq_trk_shif_correction_samples =
                 real_of_int (d_current_prn_length_samples s)
                 - fmod (real_of_int acq_to_trk_delay_samples)
                     (real_of_int (d_current_prn_length_samples s));
               samples_offset = cround (d_acq_code_phase_samples s + acq_trk_shif_correction_samples);
               counter = d_sample_counter s + word_of_int samples_offset
           in Inr (s\<lparr>d_sample_counter := counter,
                      d_pull_in := False,
                      d_sample_counter_m := counter,
                      d_sample_counter_f := real (unat counter),
                      d_sample_counter_fm := real (unat counter)\<rparr>,
                   samples_offset))"

text \<open>
  The block that finds NaN in the prompt correlator: all available samples are skipped
  and a record with zeroed measurements is written.
\<close>

definition nan_block ::
  "trk_params \<Rightarrow> trk_input \<Rightarrow> trk_state \<Rightarrow> trk_state \<times> Gnss_Synchro \<times> int" where
  "nan_block p inp s =
     (let samples_available = trk_ninput_items inp;
          s' = s\<lparr>d_sample_counter := d_sample_counter s + word_of_int samples_available\<rparr>
      in (s',
          (acquisition_gnss_synchro inp)
            \<lparr>Prompt_I := 0,
             Prompt_Q := 0,
             Tracking_timestamp_secs := real (unat (d_sample_counter s')) / real_of_int (d_fs_in p),
             Carrier_phase_rads := 0,
             Code_phase_secs := 0,
             CN0_dB_hz := 0,
             Flag_valid_tracking := False\<rparr>,
          samples_available))"

text \<open>The PLL section: discriminator, carrier filter, carrier and code frequencies.\<close>

definition carr_error_hz :: "trk_input \<Rightarrow> real" where
  "carr_error_hz inp = pll_cloop_two_quadrant_atan (d_Prompt inp) / GPS_TWO_PI"

definition pll_update :: "trk_params \<Rightarrow> trk_input \<Rightarrow> trk_state \<Rightarrow> trk_state" where
  "pll_update p inp s =
     (let carr_error_filt_hz = get_carrier_nco inp (carr_error_hz inp);
          s1 = s\<lparr>d_carrier_doppler_hz := d_acq_carrier_doppler_hz s + carr_error_filt_hz\<rparr>;
          s2 = s1\<lparr>d_code_freq_chips :=
                    GPS_L1_CA_CODE_RATE_HZ p
                    + (d_carrier_doppler_hz s1 * GPS_L1_CA_CODE_RATE_HZ p) / GPS_L1_FREQ_HZ p\<rparr>;
          s3 = s2\<lparr>d_acc_carrier_phase_rad :=
                    d_acc_carrier_phase_rad s2
                    + GPS_TWO_PI * d_carrier_doppler_hz s2 * GPS_L1_CA_CODE_PERIOD p\<rparr>;
          s4 = s3\<lparr>d_rem_carr_phase_rad :=
                    d_rem_carr_phase_rad s3
                    + GPS_TWO_PI * d_carrier_doppler_hz s3 * GPS_L1_CA_CODE_PERIOD p\<rparr>
      in s4\<lparr>d_rem_carr_phase_rad := fmod (d_rem_carr_phase_rad s4) GPS_TWO_PI\<rparr>)"

text \<open>
  The DLL sections: \<open>code_error_filt_secs\<close> of the primary loop and
  \<open>code_error_filt_secs_m\<close> of the secondary loop.
\<close>

definition code_error_filt_secs :: "trk_params \<Rightarrow> trk_input \<Rightarrow> error + real" where
  "code_error_filt_secs p inp =
     (case dll_nc_e_minus_l_normalized (d_Early inp) (d_Late inp) of
        Inl e \<Rightarrow> Inl e
      | Inr code_error_chips \<Rightarrow>
          Inr ((GPS_L1_CA_CODE_PERIOD p * get_code_nco inp code_error_chips)
               / GPS_L1_CA_CODE_RATE_HZ p))"

definition code_error_filt_secs_m :: "trk_params \<Rightarrow> trk_input \<Rightarrow> error + real" where
  "code_error_filt_secs_m p inp =
     (case dll_nc_e_minus_l_normalized (d_Early_m inp) (d_Late_m inp) of
        Inl e \<Rightarrow> Inl e
      | Inr code_error_chips_m \<Rightarrow>
          Inr ((GPS_L1_CA_CODE_PERIOD p * get_code_nco_m inp code_error_chips_m)
               / GPS_L1_CA_CODE_RATE_HZ p))"

text \<open>The length of one PRN period in samples at the current code frequency.\<close>

definition T_prn_samples :: "trk_params \<Rightarrow> trk_state \<Rightarrow> real" where
  "T_prn_samples p s =
     (let T_chip_seconds = 1 / d_code_freq_chips s;
          T_prn_seconds = T_chip_seconds * GPS_L1_CA_CODE_LENGTH_CHIPS
      in T_prn_seconds * real_of_int (d_fs_in p))"

text \<open>
  The amplitude loops. In the initialization phase the input power is the local
  \<open>corr = 1.0\<close>; afterwards it is the residual written by the correlator, and it is
  divided by the sum of the two prompt real parts.
\<close>

definition amplitude_loops :: "trk_input \<Rightarrow> trk_state \<Rightarrow> error + trk_state" where
  "amplitude_loops inp s =
     (if CADLL_init s
      then
        let d_input_power = 1;
            a1_in = d_input_power / (99 / 100);
            s1 = s\<lparr>a1 := get_amplitude_nco inp a1_in\<rparr>
        in Inr (s1\<lparr>a2 := a1 s1 / (1284025416687741 / 1000000000000000)\<rparr>)
      else
        let d_input_power = corr_CADLL inp;
            t = Re (d_Prompt inp) + Re (d_Prompt_m inp)
        in if t = 0 then Inl Division_By_Zero
           else
             let d = d_input_power / t;
                 Z = d * Re (d_Prompt inp);
                 Z_m = d * Re (d_Prompt_m inp);
                 a1_in = Z / (99 / 100);
                 a2_in = Z_m / (99 / 100)
             in Inr (s\<lparr>a1 := get_amplitude_nco inp a1_in, a2 := get_amplitude_nco_m inp a2_in\<rparr>))"

text \<open>
  One evaluation of the CN0 estimator and the lock detector over the prompt buffer,
  with the loss-of-lock decision.
\<close>

definition lock_evaluation :: "trk_params \<Rightarrow> trk_input \<Rightarrow> trk_state \<Rightarrow> trk_state" where
  "lock_evaluation p inp s =
     (let s1 = s\<lparr>d_cn0_estimation_counter := 0,
                 d_CN0_SNV_dB_Hz := cn0_svn_estimator inp (d_Prompt_buffer s),
                 d_carrier_lock_test := carrier_lock_detector inp (d_Prompt_buffer s)\<rparr>;
          s2 = (if d_carrier_lock_test s1 < d_carrier_lock_threshold s1
                   \<or> d_CN0_SNV_dB_Hz s1 < MINIMUM_VALID_CN0
                then s1\<lparr>d_carrier_lock_fail_counter := d_carrier_lock_fail_counter s1 + 1\<rparr>
                else if 0 < d_carrier_lock_fail_counter s1
                     then s1\<lparr>d_carrier_lock_fail_counter := d_carrier_lock_fail_counter s1 - 1\<rparr>
                     else s1)
      in if MAXIMUM_LOCK_FAIL_COUNTER < d_carrier_lock_fail_counter s2
         then s2\<lparr>d_queue := (if d_queue_present p then d_queue s2 @ [(d_channel p, 2)] else d_queue s2),
                 d_carrier_lock_fail_counter := 0,
                 d_enable_tracking := False\<rparr>
         else s2)"

definition cn0_and_lock_detectors ::
  "trk_params \<Rightarrow> trk_input \<Rightarrow> trk_state \<Rightarrow> error + trk_state" where
  "cn0_and_lock_detectors p inp s =
     (if d_cn0_estimation_counter s < CN0_ESTIMATION_SAMPLES
      then if d_cn0_estimation_counter s < 0
              \<or> int (length (d_Prompt_buffer s)) \<le> d_cn0_estimation_counter s
           then Inl Out_Of_Range
           else Inr (s\<lparr>d_Prompt_buffer :=
                          (d_Prompt_buffer s)[nat (d_cn0_estimation_counter s) := d_Prompt inp],
                       d_cn0_estimation_counter := d_cn0_estimation_counter s + 1\<rparr>)
      else Inr (lock_evaluation p inp s))"

text \<open>
  The code NCO section: the block lengths of the two replicas. The argument
  \<open>cefs_m\<close> is \<open>code_error_filt_secs_m\<close>, which exists only when \<open>CADLL_init\<close> is
  false.
\<close>

definition K_blk_samples :: "trk_params \<Rightarrow> real \<Rightarrow> trk_state \<Rightarrow> real" where
  "K_blk_samples p cefs s =
     T_prn_samples p s + d_rem_code_phase_samples s + cefs * real_of_int (d_fs_in p)"

definition K_blk_samples_m :: "trk_params \<Rightarrow> real \<Rightarrow> real option \<Rightarrow> trk_state \<Rightarrow> real" where
  "K_blk_samples_m p cefs cefs_m s =
     (case cefs_m of
        None \<Rightarrow> K_blk_samples p cefs s
      | Some c \<Rightarrow> T_prn_samples p s + d_rem_code_phase_samples_m s + c * real_of_int (d_fs_in p))"

definition nco_update :: "trk_params \<Rightarrow> real \<Rightarrow> real option \<Rightarrow> trk_state \<Rightarrow> trk_state" where
  "nco_update p cefs cefs_m s =
     (let K = K_blk_samples p cefs s;
          K_m = K_blk_samples_m p cefs cefs_m s;
          s1 = (if CADLL_init s then s\<lparr>d_rem_code_phase_samples_m := d_rem_code_phase_samples s\<rparr>
                else s)
      in s1\<lparr>d_current_prn_length_samples := cround K,
            d_current_prn_length_samples_m := cround K_m,
            d_sample_counter_f := d_sample_counter_f s1 + K,
            d_sample_counter_fm := d_sample_counter_fm s1 + K_m\<rparr>)"

text \<open>
  The output section: the time stamp is taken before the remnant code phases are
  updated; the promotion out of the initialization phase follows.
\<close>

definition output_and_align ::
  "trk_params \<Rightarrow> trk_input \<Rightarrow> real \<Rightarrow> real \<Rightarrow> trk_state \<Rightarrow> trk_state \<times> Gnss_Synchro" where
  "output_and_align p inp K K_m s =
     (let timestamp = (real (unat (d_sample_counter s)) + d_rem_code_phase_samples s)
                        / real_of_int (d_fs_in p);
          s1 = s\<lparr>d_rem_code_phase_samples := K - real_of_int (d_current_prn_length_samples s),
                 d_rem_code_phase_samples_m := K_m - real_of_int (d_current_prn_length_samples s)\<rparr>;
          s2 = (if CADLL_init s1 \<and> 1 < timestamp
                then s1\<lparr>CADLL_init := False,
                        d_acc_code_phase_secs_m := d_acc_code_phase_secs s1,
                        d_rem_code_phase_samples_m := d_rem_code_phase_samples s1 - 27\<rparr>
                else s1)
      in (s2,
          (acquisition_gnss_synchro inp)
            \<lparr>Prompt_I := Re (d_Prompt inp),
             Prompt_Q := Im (d_Prompt inp),
             Tracking_timestamp_secs := timestamp,
             Code_phase_secs := 0,
             Carrier_phase_rads := d_acc_carrier_phase_rad s2,
             Carrier_Doppler_hz := d_carrier_doppler_hz s2,
             CN0_dB_hz := d_CN0_SNV_dB_Hz s2\<rparr>))"

text \<open>
  The code phase accumulators of the two DLL sections; the secondary one is updated
  only outside the initialization phase.
\<close>

definition dll_update :: "real \<Rightarrow> real option \<Rightarrow> trk_state \<Rightarrow> trk_state" where
  "dll_update cefs cefs_m s =
     (let s1 = s\<lparr>d_acc_code_phase_secs := d_acc_code_phase_secs s + cefs\<rparr>
      in case cefs_m of
           None \<Rightarrow> s1
         | Some c \<Rightarrow> s1\<lparr>d_acc_code_phase_secs_m := d_acc_code_phase_secs_m s1 + c\<rparr>)"

text \<open>
  The steady-state branch of \<open>general_work\<close>, from the PLL section to the output
  record, in the order of the source.
\<close>

definition steady_state_step ::
  "trk_params \<Rightarrow> trk_input \<Rightarrow> trk_state \<Rightarrow> error + (trk_state \<times> Gnss_Synchro)" where
  "steady_state_step p inp s =
     (if d_fs_in p = 0 \<or> GPS_L1_FREQ_HZ p = 0 \<or> GPS_L1_CA_CODE_RATE_HZ p = 0
      then Inl Division_By_Zero
      else
        let s1 = pll_update p inp s
        in case code_error_filt_secs p inp of
             Inl e \<Rightarrow> Inl e
           | Inr cefs \<Rightarrow>
               (case (if \<not> CADLL_init s1 then map_sum id Some (code_error_filt_secs_m p inp)
                      else Inr None) of
                  Inl e \<Rightarrow> Inl e
                | Inr cefs_m \<Rightarrow>
                    let s3 = dll_update cefs cefs_m s1
                    in if d_code_freq_chips s3 = 0 then Inl Division_By_Zero
                       else
                         let K = K_blk_samples p cefs s3;
                             K_m = K_blk_samples_m p cefs cefs_m s3;
                             s4 = nco_update p cefs cefs_m s3
                         in case amplitude_loops inp s4 of
                              Inl e \<Rightarrow> Inl e
                            | Inr s5 \<Rightarrow>
                                (case cn0_and_lock_detectors p inp s5 of
                                   Inl e \<Rightarrow> Inl e
                                 | Inr s6 \<Rightarrow> Inr (output_and_align p inp K K_m s6))))"

text \<open>
  The common tail of \<open>general_work\<close>: the block of \<open>d_current_prn_length_samples\<close>
  samples is consumed and both sample counters advance.
\<close>

definition advance_counters :: "trk_state \<Rightarrow> trk_state" where
  "advance_counters s =
     s\<lparr>d_sample_counter := d_sample_counter s + word_of_int (d_current_prn_length_samples s),
       d_sample_counter_m := d_sample_counter_m s + word_of_int (d_current_prn_length_samples_m s)\<rparr>"

text \<open>
  \<open>general_work\<close>. The result is the new state, the record written to the output
  (none during pull-in) and the number of samples consumed. The replicas built by
  \<open>update_local_code\<close> and \<open>update_local_code_m\<close> feed the correlator, whose
  results are inputs of the model. The debug printing and the dump file are left out.
\<close>

definition trk_general_work ::
  "trk_params \<Rightarrow> trk_input \<Rightarrow> trk_state \<Rightarrow> error + (trk_state \<times> Gnss_Synchro option \<times> int)" where
  "trk_general_work p inp s =
     (if d_enable_tracking s
      then if d_pull_in s
           then (case pull_in p s of
                   Inl e \<Rightarrow> Inl e
                 | Inr (s', consumed) \<Rightarrow> Inr (s', None, consumed))
           else (case update_local_code p s of
                   Inl e \<Rightarrow> Inl e
                 | Inr epl \<Rightarrow>
                     (case update_local_code_m p s of
                        Inl e \<Rightarrow> Inl e
                      | Inr epl_m \<Rightarrow>
                          if Prompt_isnan inp
                          then (case nan_block p inp s of
                                  (s', out, consumed) \<Rightarrow> Inr (s', Some out, consumed))
                          else (case steady_state_step p inp s of
                                  Inl e \<Rightarrow> Inl e
                                | Inr (s', out) \<Rightarrow>
                                    Inr (advance_counters s', Some out,
                                         d_current_prn_length_samples s'))))
      else Inr (advance_counters s, Some (acquisition_gnss_synchro inp),
                d_current_prn_length_samples s))"

text \<open>\<open>stop_tracking\<close> posts the message 2 and disables tracking.\<close>

definition stop_tracking :: "trk_params \<Rightarrow> trk_state \<Rightarrow> trk_state" where
  "stop_tracking p s =
     s\<lparr>d_queue := (if d_queue_present p then d_queue s @ [(d_channel p, 2)] else d_queue s),
       d_enable_tracking := False\<rparr>"

section \<open>Quantities named by the properties\<close>

text \<open>
  The raw squared magnitude at the index reported for Doppler bin \<open>k\<close>, and its
  value after the normalization the code applies.
\<close>

definition peak_raw :: "acq_params \<Rightarrow> acq_input \<Rightarrow> nat \<Rightarrow> real" where
  "peak_raw p inp k =
     (let mags = take (d_fft_size p) (ifft_magnitude inp k) in mags ! index_max mags)"

definition peak_normalized :: "acq_params \<Rightarrow> acq_input \<Rightarrow> nat \<Rightarrow> real" where
  "peak_normalized p inp k = peak_raw p inp k / real (d_fft_size p) ^ 4"

text \<open>
  A steady-state call of the tracking \<open>general_work\<close>: tracking is enabled, the
  pull-in is over and the prompt correlator holds no NaN.
\<close>

definition steady :: "trk_input \<Rightarrow> trk_state \<Rightarrow> bool" where
  "steady inp s = (d_enable_tracking s \<and> \<not> d_pull_in s \<and> \<not> Prompt_isnan inp)"

text \<open>
  The value of the lock-fail counter after the increment or decrement of one lock
  evaluation, before the comparison with \<open>MAXIMUM_LOCK_FAIL_COUNTER\<close>, and the
  condition under which that evaluation counts as a failure.
\<close>

definition next_fail_counter :: "trk_input \<Rightarrow> trk_state \<Rightarrow> int" where
  "next_fail_counter inp s =
     (if carrier_lock_detector inp (d_Prompt_buffer s) < d_carrier_lock_threshold s
         \<or> cn0_svn_estimator inp (d_Prompt_buffer s) < MINIMUM_VALID_CN0
      then d_carrier_lock_fail_counter s + 1
      else if 0 < d_carrier_lock_fail_counter s then d_carrier_lock_fail_counter s - 1
      else d_carrier_lock_fail_counter s)"

definition lock_failing :: "trk_input \<Rightarrow> trk_state \<Rightarrow> bool" where
  "lock_failing inp s =
     (carrier_lock_detector inp (d_Prompt_buffer s) < d_carrier_lock_threshold s
      \<or> cn0_svn_estimator inp (d_Prompt_buffer s) < MINIMUM_VALID_CN0)"

text \<open>The time stamp of the record a call of \<open>general_work\<close> emitted, if any.\<close>

definition emitted_timestamp ::
  "error + (trk_state \<times> Gnss_Synchro option \<times> int) \<Rightarrow> real option" where
  "emitted_timestamp res =
     (case res of
        Inl e \<Rightarrow> None
      | Inr (s', out, consumed) \<Rightarrow> map_option Tracking_timestamp_secs out)"

text \<open>
  The auxiliary peak a dwell selects, if any: the result of the selection loop on the
  peaks the Doppler loop of that dwell collected.
\<close>

definition dwell_selected ::
  "acq_params \<Rightarrow> acq_input \<Rightarrow> acq_state \<Rightarrow> (real \<times> peak_values) option" where
  "dwell_selected p inp s =
     (let s1 = dwell_start p inp s
      in case doppler_loop p inp (threshold_spoofing p s1) 0 (d_num_doppler_bins p) ([], s1) of
           Inl e \<Rightarrow> None
         | Inr (peaks, s2) \<Rightarrow>
             if 1 < d_peak p \<and> peaks \<noteq> [] then select_peak p 0 [] (rev peaks) else None)"

section \<open>Concrete inputs\<close>

text \<open>
  Small configurations and inputs on which the model is run below. The acquisition
  examples use blocks of two or four samples, one Doppler bin and unit input power.
\<close>

definition synchro0 :: Gnss_Synchro where
  "synchro0 =
     \<lparr>PRN = 1, Acq_delay_samples = 0, Acq_doppler_hz = 0, Acq_samplestamp_samples = 0,
      Prompt_I = 0, Prompt_Q = 0, Tracking_timestamp_secs = 0, Carrier_phase_rads = 0,
      Carrier_Doppler_hz = 0, Code_phase_secs = 0, CN0_dB_hz = 0, Flag_valid_tracking = False\<rparr>"

definition acq_state0 :: acq_state where
  "acq_state0 =
     \<lparr>d_state = 1, d_active = True, d_well_count = 0, d_mag = 0, d_mag_2nd_highest = 0,
      d_input_power = 0, d_test_statistics = 0, acq_sample_counter = 0,
      d_gnss_synchro = synchro0, d_channel_internal_queue = []\<rparr>"

definition aux_params :: acq_params where
  "aux_params =
     \<lparr>d_fft_size = 4, d_samples_per_code = 4, d_max_dwells = 1, d_doppler_max = 0,
      d_doppler_step = 1, d_num_doppler_bins = 1, d_threshold = 1 / 2,
      d_bit_transition_flag = False, d_peak = 2\<rparr>"

definition aux_input :: acq_input where
  "aux_input =
     \<lparr>ninput_items = 1, in_samples = [1, 1, 1, 1], ifft_magnitude = (\<lambda>k. [0, 768, 512, 256])\<rparr>"

definition norm_params :: acq_params where
  "norm_params =
     \<lparr>d_fft_size = 2, d_samples_per_code = 2, d_max_dwells = 1, d_doppler_max = 0,
      d_doppler_step = 1, d_num_doppler_bins = 1, d_threshold = 2,
      d_bit_transition_flag = False, d_peak = 1\<rparr>"

definition norm_input :: acq_input where
  "norm_input = \<lparr>ninput_items = 1, in_samples = [1, 1], ifft_magnitude = (\<lambda>k. [16, 0])\<rparr>"

definition guard_params :: acq_params where
  "guard_params =
     \<lparr>d_fft_size = 2, d_samples_per_code = 2, d_max_dwells = 2, d_doppler_max = 0,
      d_doppler_step = 1, d_num_doppler_bins = 1, d_threshold = 1 / 2,
      d_bit_transition_flag = False, d_peak = 2\<rparr>"

definition transition_aux_params :: acq_params where
  "transition_aux_params = aux_params\<lparr>d_bit_transition_flag := True\<rparr>"

definition primed_state :: acq_state where
  "primed_state = acq_state0\<lparr>d_test_statistics := 10\<rparr>"

text \<open>
  The tracking examples sample at 2.046 MHz, two samples per chip, so that one code
  period is 2046 samples. \<open>trk_state0\<close> is the state the constructor leaves;
  \<open>init_state\<close> is a state of the initialization phase two seconds into the stream,
  \<open>cadll_state\<close> one of the CADLL phase with the secondary replica 27 samples behind.
  The loop filters of the examples return their input.
\<close>

definition trk_params0 :: trk_params where
  "trk_params0 =
     \<lparr>d_fs_in = 2046000, d_vector_length = 2046, d_early_late_spc_chips = 1 / 2,
      d_channel = 0, d_queue_present = True, GPS_L1_FREQ_HZ = 1575420000,
      GPS_L1_CA_CODE_RATE_HZ = 1023000, GPS_L1_CA_CODE_PERIOD = 1 / 1000\<rparr>"

definition trk_state0 :: trk_state where
  "trk_state0 =
     \<lparr>d_enable_tracking = False, d_pull_in = False, CADLL_init = True,
      d_sample_counter = 0, d_sample_counter_m = 0, d_sample_counter_f = 0,
      d_sample_counter_fm = 0, d_acq_sample_stamp = 0, d_acq_code_phase_samples = 0,
      d_acq_carrier_doppler_hz = 0, d_code_phase_samples = 0, d_carrier_doppler_hz = 0,
      d_code_freq_chips = 1023000, d_rem_code_phase_samples = 0,
      d_rem_code_phase_samples_m = 0, d_rem_carr_phase_rad = 0, d_acc_carrier_phase_rad = 0,
      d_acc_code_phase_secs = 0, d_acc_code_phase_secs_m = 0,
      d_current_prn_length_samples = 2046, d_current_prn_length_samples_m = 2046,
      a1 = 0, a2 = 0, d_cn0_estimation_counter = 0, d_Prompt_buffer = replicate 20 0,
      d_carrier_lock_test = 1, d_CN0_SNV_dB_Hz = 0, d_carrier_lock_fail_counter = 0,
      d_carrier_lock_threshold = 85 / 100, d_ca_code = replicate 1025 0, d_queue = []\<rparr>"

definition chips0 :: "complex list" where
  "chips0 = replicate 1022 1 @ [- 1]"

definition undersampled_params :: trk_params where
  "undersampled_params = trk_params0\<lparr>d_fs_in := 500000\<rparr>"

definition undersampled_state :: trk_state where
  "undersampled_state =
     trk_state0\<lparr>d_enable_tracking := True, d_rem_code_phase_samples := 49 / 100,
                d_current_prn_length_samples := 500, d_current_prn_length_samples_m := 500\<rparr>"

definition trk_input0 :: trk_input where
  "trk_input0 =
     \<lparr>trk_ninput_items = 4092, acquisition_gnss_synchro = synchro0,
      d_Early = 1, d_Prompt = 2, d_Late = 1, d_Early_m = 1, d_Prompt_m = 2, d_Late_m = 1,
      Prompt_isnan = False, corr_CADLL = 1,
      get_carrier_nco = (\<lambda>x. x), get_code_nco = (\<lambda>x. x), get_code_nco_m = (\<lambda>x. x),
      get_amplitude_nco = (\<lambda>x. x), get_amplitude_nco_m = (\<lambda>x. x),
      cn0_svn_estimator = (\<lambda>b. 40), carrier_lock_detector = (\<lambda>b. 1)\<rparr>"

definition nan_input :: trk_input where
  "nan_input = trk_input0\<lparr>Prompt_isnan := True\<rparr>"

definition quadrature_input :: trk_input where
  "quadrature_input = trk_input0\<lparr>d_Prompt := \<i>\<rparr>"

definition cancelling_input :: trk_input where
  "cancelling_input = trk_input0\<lparr>d_Prompt_m := - 2\<rparr>"

definition failing_input :: trk_input where
  "failing_input = trk_input0\<lparr>carrier_lock_detector := (\<lambda>b. 0)\<rparr>"

definition init_state :: trk_state where
  "init_state = trk_state0\<lparr>d_enable_tracking := True, d_sample_counter := 4092000\<rparr>"

definition skewed_state :: trk_state where
  "skewed_state = init_state\<lparr>d_rem_code_phase_samples := 1 / 4\<rparr>"

definition cadll_state :: trk_state where
  "cadll_state = init_state\<lparr>CADLL_init := False, d_rem_code_phase_samples_m := - 27\<rparr>"

definition evaluation_state :: trk_state where
  "evaluation_state =
     init_state\<lparr>d_cn0_estimation_counter := 20, d_carrier_lock_fail_counter := 50\<rparr>"

section \<open>Properties of the acquisition engine\<close>

lemmas acq_eval = dwell_def dwell_start_def threshold_spoofing_def input_power_estimation_def
  fft_normalization_factor_def doppler_bin_def index_max_def auxiliary_peaks_def
  use_this_peak_def decide_def Let_def ctrunc_def synchro0_def acq_state0_def

lemma normalization_power4:
  "fft_normalization_factor p * fft_normalization_factor p = real (d_fft_size p) ^ 4"
  by (simp add: fft_normalization_factor_def power4_eq_xxxx)

lemma doppler_bin_mag:
  assumes "doppler_bin p inp th k (pk, s) = Inr (pk', s')"
  shows "d_mag s' = max (d_mag s) (peak_normalized p inp k)"
    and "d_mag_2nd_highest s' = d_mag_2nd_highest s \<or> d_mag_2nd_highest s' = d_mag s"
    and "d_input_power s' = d_input_power s"
    and "d_well_count s' = d_well_count s"
    and "d_state s' = d_state s"
  using assms
  by (auto simp: doppler_bin_def Let_def peak_normalized_def peak_raw_def normalization_power4
      split: if_splits)

lemma doppler_bin_stat:
  assumes "doppler_bin p inp th k (pk, s) = Inr (pk', s')"
  shows "d_bit_transition_flag p \<Longrightarrow> d_test_statistics s \<le> d_test_statistics s'"
  using assms
  by (auto simp: doppler_bin_def Let_def split: if_splits)

lemma doppler_loop_mag:
  "doppler_loop p inp th k n (pk, s) = Inr (pk', s') \<Longrightarrow>
     d_mag s \<le> d_mag s'
     \<and> (d_mag s' = d_mag s \<or> (\<exists>j. k \<le> j \<and> j < k + n \<and> d_mag s' = peak_normalized p inp j))
     \<and> (\<forall>j. k \<le> j \<and> j < k + n \<longrightarrow> peak_normalized p inp j \<le> d_mag s')
     \<and> (d_mag_2nd_highest s' = d_mag_2nd_highest s \<or> d_mag_2nd_highest s' = d_mag s
          \<or> (\<exists>j. k \<le> j \<and> j < k + n \<and> d_mag_2nd_highest s' = peak_normalized p inp j))"
proof (induction n arbitrary: k pk s)
  case 0
  then show ?case by simp
next
  case (Suc n)
  from Suc.prems obtain pk1 s1 where
    b: "doppler_bin p inp th k (pk, s) = Inr (pk1, s1)" and
    l: "doppler_loop p inp th (Suc k) n (pk1, s1) = Inr (pk', s')"
    by (auto split: sum.splits)
  note m = doppler_bin_mag(1,2)[OF b]
  note ih = Suc.IH[OF l]
  have 1: "d_mag s \<le> d_mag s'" using m ih by auto
  have 2: "d_mag s' = d_mag s \<or> (\<exists>j. k \<le> j \<and> j < k + Suc n \<and> d_mag s' = peak_normalized p inp j)"
  proof -
    from ih have "d_mag s' = d_mag s1 \<or> (\<exists>j. Suc k \<le> j \<and> j < Suc k + n \<and> d_mag s' = peak_normalized p inp j)"
      by blast
    then show ?thesis
    proof
      assume "d_mag s' = d_mag s1"
      with m(1) have "d_mag s' = d_mag s \<or> d_mag s' = peak_normalized p inp k" by (auto simp: max_def)
      then show ?thesis by auto
    next
      assume "\<exists>j. Suc k \<le> j \<and> j < Suc k + n \<and> d_mag s' = peak_normalized p inp j"
      then obtain j where "Suc k \<le> j" "j < Suc k + n" "d_mag s' = peak_normalized p inp j" by blast
      then have "k \<le> j \<and> j < k + Suc n \<and> d_mag s' = peak_normalized p inp j" by simp
      then show ?thesis by blast
    qed
  qed
  have 3: "\<forall>j. k \<le> j \<and> j < k + Suc n \<longrightarrow> peak_normalized p inp j \<le> d_mag s'"
  proof (intro allI impI)
    fix j assume j: "k \<le> j \<and> j < k + Suc n"
    show "peak_normalized p inp j \<le> d_mag s'"
    proof (cases "j = k")
      case True
      have "peak_normalized p inp k \<le> d_mag s1" using m(1) by simp
      moreover have "d_mag s1 \<le> d_mag s'" using ih by blast
      ultimately show ?thesis using True by simp
    next
      case False
      with j have "Suc k \<le> j \<and> j < Suc k + n" by simp
      with ih show ?thesis by blast
    qed
  qed
  have 4: "d_mag_2nd_highest s' = d_mag_2nd_highest s \<or> d_mag_2nd_highest s' = d_mag s
          \<or> (\<exists>j. k \<le> j \<and> j < k + Suc n \<and> d_mag_2nd_highest s' = peak_normalized p inp j)"
  proof -
    from ih have "d_mag_2nd_highest s' = d_mag_2nd_highest s1 \<or> d_mag_2nd_highest s' = d_mag s1
          \<or> (\<exists>j. Suc k \<le> j \<and> j < Suc k + n \<and> d_mag_2nd_highest s' = peak_normalized p inp j)"
      by blast
    then consider (a) "d_mag_2nd_highest s' = d_mag_2nd_highest s1" | (b) "d_mag_2nd_highest s' = d_mag s1"
      | (c) "\<exists>j. Suc k \<le> j \<and> j < Suc k + n \<and> d_mag_2nd_highest s' = peak_normalized p inp j"
      by blast
    then show ?thesis
    proof cases
      case a
      with m(2) show ?thesis by auto
    next
      case b
      with m(1) have "d_mag_2nd_highest s' = d_mag s \<or> d_mag_2nd_highest s' = peak_normalized p inp k"
        by (auto simp: max_def)
      then show ?thesis by auto
    next
      case c
      then obtain j where "Suc k \<le> j" "j < Suc k + n" "d_mag_2nd_highest s' = peak_normalized p inp j" by blast
      then have "k \<le> j \<and> j < k + Suc n \<and> d_mag_2nd_highest s' = peak_normalized p inp j" by simp
      then show ?thesis by blast
    qed
  qed
  from 1 2 3 4 show ?case by blast
qed

lemma doppler_loop_frame:
  "doppler_loop p inp th k n (pk, s) = Inr (pk', s') \<Longrightarrow>
     d_input_power s' = d_input_power s \<and> d_well_count s' = d_well_count s \<and> d_state s' = d_state s
     \<and> (d_bit_transition_flag p \<longrightarrow> d_test_statistics s \<le> d_test_statistics s')"
proof (induction n arbitrary: k pk s)
  case 0
  then show ?case by simp
next
  case (Suc n)
  from Suc.prems obtain pk1 s1 where
    b: "doppler_bin p inp th k (pk, s) = Inr (pk1, s1)" and
    l: "doppler_loop p inp th (Suc k) n (pk1, s1) = Inr (pk', s')"
    by (auto split: sum.splits)
  from doppler_bin_mag(3,4,5)[OF b] doppler_bin_stat[OF b] Suc.IH[OF l]
  show ?case by auto
qed

lemma auxiliary_peaks_off:
  "d_peak p \<le> 1 \<Longrightarrow> auxiliary_peaks p peaks s = Inr (False, s)"
  by (simp add: auxiliary_peaks_def)

lemma auxiliary_peaks_mag:
  "auxiliary_peaks p peaks s = Inr (f, s') \<Longrightarrow>
     d_mag s' = d_mag s \<and> d_mag_2nd_highest s' = d_mag_2nd_highest s"
  by (auto simp: auxiliary_peaks_def split: if_splits option.splits)

lemma decide_mag:
  "d_mag (decide p f s) = d_mag s \<and> d_mag_2nd_highest (decide p f s) = d_mag_2nd_highest s
   \<and> d_test_statistics (decide p f s) = d_test_statistics s
   \<and> d_well_count (decide p f s) = d_well_count s"
  by (simp add: decide_def Let_def)

lemma norm_eval:
  "\<exists>r. dwell norm_params norm_input acq_state0 = Inr r \<and> d_mag r = 1 \<and> d_mag_2nd_highest r = 0
     \<and> d_state r = 3 \<and> d_test_statistics r = 1 \<and> d_well_count r = 1"
  by (simp add: acq_eval norm_params_def norm_input_def)

text \<open>
  Claim C3, as amended. After a dwell, \<open>d_mag\<close> is zero or the raw squared magnitude
  at the reported maximum of some processed Doppler bin divided by the fourth power of
  \<open>d_fft_size\<close> (the square of \<open>fft_normalization_factor\<close>), and so is
  \<open>d_mag_2nd_highest\<close>; \<open>d_mag\<close> is at least the normalized peak of every bin.
\<close>

theorem dwell_peak_normalization:
  assumes "dwell p inp s = Inr s'"
  shows "(d_mag s' = 0 \<or> (\<exists>k < d_num_doppler_bins p.
             d_mag s' = peak_raw p inp k / real (d_fft_size p) ^ 4))
       \<and> (d_mag_2nd_highest s' = 0 \<or> (\<exists>k < d_num_doppler_bins p.
             d_mag_2nd_highest s' = peak_raw p inp k / real (d_fft_size p) ^ 4))
       \<and> (\<forall>k < d_num_doppler_bins p. peak_raw p inp k / real (d_fft_size p) ^ 4 \<le> d_mag s')"
proof -
  from assms obtain pk s2 f s3 where
    l: "doppler_loop p inp (threshold_spoofing p (dwell_start p inp s)) 0 (d_num_doppler_bins p)
          ([], dwell_start p inp s) = Inr (pk, s2)" and
    a: "auxiliary_peaks p pk s2 = Inr (f, s3)" and
    d: "s' = decide p f s3"
    by (auto simp: dwell_def Let_def split: if_splits sum.splits)
  have s1: "d_mag (dwell_start p inp s) = 0" "d_mag_2nd_highest (dwell_start p inp s) = 0"
    by (simp_all add: dwell_start_def)
  from doppler_loop_mag[OF l] s1 auxiliary_peaks_mag[OF a] d decide_mag[of p f s3]
  show ?thesis
    by (simp add: peak_normalized_def)
qed


theorem dwell_peak_normalization_witness:
  "\<exists>r. dwell norm_params norm_input acq_state0 = Inr r \<and> d_mag r = 1
       \<and> peak_raw norm_params norm_input 0 / real (d_fft_size norm_params) ^ 4 = 1"
proof -
  obtain r where e: "dwell norm_params norm_input acq_state0 = Inr r" and m: "d_mag r = 1"
    using norm_eval by blast
  have "peak_raw norm_params norm_input 0 / real (d_fft_size norm_params) ^ 4 = 1"
    by (simp add: peak_raw_def norm_params_def norm_input_def index_max_def)
  with dwell_peak_normalization[OF e] e m show ?thesis by blast
qed

theorem dwell_peak_not_fft_size_squared:
  "map_sum id d_mag (dwell norm_params norm_input acq_state0) = Inr 1
   \<and> peak_raw norm_params norm_input 0 / real (d_fft_size norm_params) ^ 2 = 4"
  by (simp add: acq_eval norm_params_def norm_input_def peak_raw_def)

lemma auxiliary_peaks_result:
  assumes "auxiliary_peaks p pk s = Inr (f, s')"
  shows "d_state s' = d_state s" and "d_well_count s' = d_well_count s"
    and "d_input_power s' = d_input_power s"
    and "f = ((if 1 < d_peak p \<and> pk \<noteq> [] then select_peak p 0 [] (rev pk) else None) \<noteq> None)"
    and "(case (if 1 < d_peak p \<and> pk \<noteq> [] then select_peak p 0 [] (rev pk) else None) of
            None \<Rightarrow> s' = s
          | Some (key, values) \<Rightarrow> d_test_statistics s' = key / d_input_power s)"
  using assms
  by (auto simp: auxiliary_peaks_def split: if_splits option.splits)

lemma decide_frame:
  "d_input_power (decide p f s) = d_input_power s"
  by (simp add: decide_def Let_def)

lemma aux_eval:
  "\<exists>r. dwell aux_params aux_input acq_state0 = Inr r \<and> d_test_statistics r = 1
     \<and> d_input_power r = 1"
  by (simp add: acq_eval aux_params_def aux_input_def)

lemma aux_selected:
  "dwell_selected aux_params aux_input acq_state0
     = Some (1, \<lparr>code_phase = 3, doppler = 0, sample_counter = 4\<rparr>)"
  by (simp add: dwell_selected_def acq_eval aux_params_def aux_input_def)

lemma falling_eval:
  "map_sum id d_state (dwell transition_aux_params aux_input primed_state) = Inr 2
   \<and> map_sum id d_test_statistics (dwell transition_aux_params aux_input primed_state) = Inr 1
   \<and> d_test_statistics primed_state = 10
   \<and> d_bit_transition_flag transition_aux_params"
  by (simp add: acq_eval transition_aux_params_def primed_state_def aux_params_def aux_input_def)

text \<open>
  Claim C5, as amended. A dwell started in state 1 counts one more dwell and does not
  reset the test statistics when it starts. Unless the auxiliary-peak mode is on and the
  dwell selects no auxiliary peak: without the bit-transition flag the dwell ends in
  state 2 exactly when the test statistics exceed the threshold, in state 3 exactly when
  they do not and the dwell count equals \<open>d_max_dwells\<close>, and stays in state 1
  otherwise; with the flag it takes no decision while the dwell count differs from
  \<open>d_max_dwells\<close> and decides on the dwell where they are equal, state 2 exactly
  when the test statistics exceed the threshold and state 3 otherwise. When the
  auxiliary-peak mode is on and no auxiliary peak is selected, the decision, where one
  is taken, is state 3 whatever the test statistics are. With the flag the test
  statistics never decrease over a dwell that selects no auxiliary peak; a selected
  auxiliary peak replaces them by its normalized magnitude over the input power.
\<close>

theorem dwell_decision:
  assumes "dwell p inp s = Inr s'" and "d_state s = 1"
  shows "d_well_count s' = (d_well_count s + 1) mod 2 ^ 32
    \<and> d_test_statistics (dwell_start p inp s) = d_test_statistics s
    \<and> (case dwell_selected p inp s of
          None \<Rightarrow> d_bit_transition_flag p \<longrightarrow> d_test_statistics s \<le> d_test_statistics s'
        | Some (key, values) \<Rightarrow>
            1 < d_peak p \<and> d_test_statistics s' = key / d_input_power s')
    \<and> (\<not> (1 < d_peak p \<and> dwell_selected p inp s = None) \<longrightarrow>
          (\<not> d_bit_transition_flag p \<longrightarrow>
              (d_state s' = 2 \<longleftrightarrow> d_threshold p < d_test_statistics s')
            \<and> (d_state s' = 3 \<longleftrightarrow>
                  \<not> d_threshold p < d_test_statistics s' \<and> d_well_count s' = d_max_dwells p)
            \<and> (d_state s' = 1 \<longleftrightarrow>
                  \<not> d_threshold p < d_test_statistics s' \<and> d_well_count s' \<noteq> d_max_dwells p))
        \<and> (d_bit_transition_flag p \<longrightarrow>
              (d_well_count s' \<noteq> d_max_dwells p \<longrightarrow> d_state s' = 1)
            \<and> (d_well_count s' = d_max_dwells p \<longrightarrow>
                  (d_state s' = 2 \<longleftrightarrow> d_threshold p < d_test_statistics s')
                \<and> (d_state s' = 3 \<longleftrightarrow> \<not> d_threshold p < d_test_statistics s'))))
    \<and> (1 < d_peak p \<and> dwell_selected p inp s = None \<longrightarrow>
          (\<not> d_bit_transition_flag p \<longrightarrow> d_state s' = 3)
        \<and> (d_bit_transition_flag p \<longrightarrow>
              (d_well_count s' \<noteq> d_max_dwells p \<longrightarrow> d_state s' = 1)
            \<and> (d_well_count s' = d_max_dwells p \<longrightarrow> d_state s' = 3)))"
proof -
  from assms(1) obtain pk s2 f s3 where
    l: "doppler_loop p inp (threshold_spoofing p (dwell_start p inp s)) 0 (d_num_doppler_bins p)
          ([], dwell_start p inp s) = Inr (pk, s2)" and
    a: "auxiliary_peaks p pk s2 = Inr (f, s3)" and
    d: "s' = decide p f s3"
    by (auto simp: dwell_def Let_def split: if_splits sum.splits)
  define sel where "sel = (if 1 < d_peak p \<and> pk \<noteq> [] then select_peak p 0 [] (rev pk) else None)"
  have ds: "dwell_selected p inp s = sel"
    by (simp add: dwell_selected_def Let_def l sel_def)
  note ar = auxiliary_peaks_result[OF a, folded sel_def]
  have st: "d_state (dwell_start p inp s) = 1"
    "d_well_count (dwell_start p inp s) = (d_well_count s + 1) mod 2 ^ 32"
    "d_test_statistics (dwell_start p inp s) = d_test_statistics s"
    using assms(2) by (simp_all add: dwell_start_def)
  from doppler_loop_frame[OF l] st have s2: "d_state s2 = 1"
    "d_well_count s2 = (d_well_count s + 1) mod 2 ^ 32"
    "d_bit_transition_flag p \<longrightarrow> d_test_statistics s \<le> d_test_statistics s2"
    by simp_all
  have s3: "d_state s3 = 1" "d_well_count s3 = (d_well_count s + 1) mod 2 ^ 32"
    "d_input_power s3 = d_input_power s2"
    using ar(1,2,3) s2 by simp_all
  have f: "f = (sel \<noteq> None)" by (rule ar(4))
  have peak: "sel \<noteq> None \<Longrightarrow> 1 < d_peak p" by (auto simp: sel_def split: if_splits)
  have c1: "d_well_count s' = (d_well_count s + 1) mod 2 ^ 32"
    unfolding d using s3 decide_mag[of p f s3] by simp
  have c3: "(case sel of
          None \<Rightarrow> d_bit_transition_flag p \<longrightarrow> d_test_statistics s \<le> d_test_statistics s'
        | Some (key, values) \<Rightarrow>
            1 < d_peak p \<and> d_test_statistics s' = key / d_input_power s')"
  proof (cases sel)
    case None
    with ar(5) have "s3 = s2" by simp
    with s2(3) None show ?thesis
      unfolding d using decide_mag[of p f s3] by simp
  next
    case (Some kv)
    with ar(5) peak s3(3) show ?thesis
      unfolding d using decide_mag[of p f s3] decide_frame[of p f s3]
      by (cases kv) simp
  qed
  have c4: "\<not> (1 < d_peak p \<and> sel = None) \<longrightarrow>
          (\<not> d_bit_transition_flag p \<longrightarrow>
              (d_state s' = 2 \<longleftrightarrow> d_threshold p < d_test_statistics s')
            \<and> (d_state s' = 3 \<longleftrightarrow>
                  \<not> d_threshold p < d_test_statistics s' \<and> d_well_count s' = d_max_dwells p)
            \<and> (d_state s' = 1 \<longleftrightarrow>
                  \<not> d_threshold p < d_test_statistics s' \<and> d_well_count s' \<noteq> d_max_dwells p))
        \<and> (d_bit_transition_flag p \<longrightarrow>
              (d_well_count s' \<noteq> d_max_dwells p \<longrightarrow> d_state s' = 1)
            \<and> (d_well_count s' = d_max_dwells p \<longrightarrow>
                  (d_state s' = 2 \<longleftrightarrow> d_threshold p < d_test_statistics s')
                \<and> (d_state s' = 3 \<longleftrightarrow> \<not> d_threshold p < d_test_statistics s')))"
    unfolding d f using s3(1) by (auto simp: decide_def Let_def)
  have c5: "1 < d_peak p \<and> sel = None \<longrightarrow>
          (\<not> d_bit_transition_flag p \<longrightarrow> d_state s' = 3)
        \<and> (d_bit_transition_flag p \<longrightarrow>
              (d_well_count s' \<noteq> d_max_dwells p \<longrightarrow> d_state s' = 1)
            \<and> (d_well_count s' = d_max_dwells p \<longrightarrow> d_state s' = 3))"
    unfolding d f using s3(1) by (auto simp: decide_def Let_def)
  from c1 st(3) c3 c4 c5 show ?thesis unfolding ds by blast
qed

theorem dwell_decision_witness:
  "\<exists>r. dwell aux_params aux_input acq_state0 = Inr r \<and> d_state r = 2 \<and> d_well_count r = 1
     \<and> d_test_statistics r = 1 / d_input_power r"
proof -
  obtain r where e: "dwell aux_params aux_input acq_state0 = Inr r"
    and m: "d_test_statistics r = 1"
    using aux_eval by blast
  have h: "d_state acq_state0 = 1" by (simp add: acq_state0_def)
  from dwell_decision[OF e h] m
  have "d_state r = 2 \<and> d_well_count r = 1 \<and> d_test_statistics r = 1 / d_input_power r"
    by (simp add: aux_selected) (simp add: aux_params_def acq_state0_def)
  with e show ?thesis by blast
qed

theorem dwell_negative_above_threshold:
  "map_sum id d_state (dwell guard_params norm_input acq_state0) = Inr 3
   \<and> map_sum id d_test_statistics (dwell guard_params norm_input acq_state0) = Inr 1
   \<and> map_sum id d_well_count (dwell guard_params norm_input acq_state0) = Inr 1
   \<and> d_threshold guard_params < 1 \<and> \<not> d_bit_transition_flag guard_params
   \<and> d_max_dwells guard_params = 2
   \<and> map_sum id d_state (dwell transition_aux_params aux_input primed_state) = Inr 2
   \<and> map_sum id d_test_statistics (dwell transition_aux_params aux_input primed_state) = Inr 1
   \<and> d_test_statistics primed_state = 10
   \<and> d_bit_transition_flag transition_aux_params"
  using falling_eval by (simp add: acq_eval guard_params_def norm_input_def)

text \<open>
  Claim C1, at a failing input. The two highest peaks (code phases 1 and 2, Doppler 0)
  are selected; the third (code phase 3, Doppler 0) shares their Doppler and lies within
  \<open>2 * d_samples_per_code = 8\<close> samples of both, yet the loop accepts it, because it
  compares the candidate's Doppler with the code phase of the selected peak. The dwell
  then reports a positive acquisition at code phase 3.
\<close>

theorem auxiliary_peak_not_disjoint:
  "select_peak aux_params 0 []
     [(3, \<lparr>code_phase = 1, doppler = 0, sample_counter = 4\<rparr>),
      (2, \<lparr>code_phase = 2, doppler = 0, sample_counter = 4\<rparr>),
      (1, \<lparr>code_phase = 3, doppler = 0, sample_counter = 4\<rparr>)]
     = Some (1, \<lparr>code_phase = 3, doppler = 0, sample_counter = 4\<rparr>)
   \<and> map_sum id d_state (dwell aux_params aux_input acq_state0) = Inr 2
   \<and> map_sum id (Acq_delay_samples \<circ> d_gnss_synchro) (dwell aux_params aux_input acq_state0) = Inr 3
   \<and> map_sum id (Acq_doppler_hz \<circ> d_gnss_synchro) (dwell aux_params aux_input acq_state0) = Inr 0"
  by (simp add: acq_eval aux_params_def aux_input_def)

section \<open>Properties of \<open>fmod\<close> and \<open>round\<close>\<close>

lemma fmod_nonneg:
  assumes "0 \<le> x" and "0 < y"
  shows "0 \<le> fmod x y" and "fmod x y < y"
proof -
  have q: "0 \<le> x / y" using assms by simp
  have e: "fmod x y = y * (x / y - of_int \<lfloor>x / y\<rfloor>)"
    using assms q by (simp add: fmod_def ctrunc_def algebra_simps)
  have "0 \<le> x / y - of_int \<lfloor>x / y\<rfloor>" by linarith
  then show "0 \<le> fmod x y" using assms e by simp
  have "x / y - of_int \<lfloor>x / y\<rfloor> < 1" by linarith
  then have "y * (x / y - of_int \<lfloor>x / y\<rfloor>) < y * 1"
    using assms(2) by (rule mult_strict_left_mono)
  then show "fmod x y < y" using e by simp
qed

lemma fmod_neg:
  assumes "x < 0" and "0 < y"
  shows "fmod x y \<le> 0" and "- y < fmod x y"
proof -
  have q: "x / y < 0" using assms by (simp add: divide_neg_pos)
  have e: "fmod x y = y * (x / y - of_int \<lceil>x / y\<rceil>)"
    using assms q by (simp add: fmod_def ctrunc_def algebra_simps)
  have "x / y - of_int \<lceil>x / y\<rceil> \<le> 0" by linarith
  then have "y * (x / y - of_int \<lceil>x / y\<rceil>) \<le> 0"
    using assms(2) by (simp add: mult_le_0_iff)
  then show "fmod x y \<le> 0" using e by simp
  have "- 1 < x / y - of_int \<lceil>x / y\<rceil>" by linarith
  then have "y * (- 1) < y * (x / y - of_int \<lceil>x / y\<rceil>)"
    using assms(2) by (rule mult_strict_left_mono)
  then show "- y < fmod x y" using e by simp
qed

lemma fmod_small_neg:
  assumes "- y < x" and "x < 0" and "0 < y"
  shows "fmod x y = x"
proof -
  have "- 1 < x / y" using assms by (simp add: pos_less_divide_eq)
  moreover have q: "x / y < 0" using assms by (simp add: divide_neg_pos)
  ultimately have "\<lceil>x / y\<rceil> = 0" by linarith
  then show ?thesis using q by (simp add: fmod_def ctrunc_def)
qed

lemma cround_upper: "y < 1023 \<Longrightarrow> cround y \<le> 1023"
  unfolding cround_def by (auto; linarith)

lemma cround_lower: "- 1023 < y \<Longrightarrow> - 1023 \<le> cround y"
  unfolding cround_def by (auto; linarith)

lemma cround_lower_one: "- (3 / 2) < y \<Longrightarrow> - 1 \<le> cround y"
  unfolding cround_def by (auto; linarith)

lemma chip_index_upper:
  "1 + cround (fmod x 1023) \<le> 1024"
proof (cases "0 \<le> x")
  case True
  from fmod_nonneg(2)[OF True, of 1023] have "fmod x 1023 < 1023" by simp
  from cround_upper[OF this] show ?thesis by simp
next
  case False
  then have "x < 0" by simp
  from fmod_neg(1)[OF this, of 1023] have "fmod x 1023 < 1023" by simp
  from cround_upper[OF this] show ?thesis by simp
qed

lemma chip_index_lower:
  "- 1022 \<le> 1 + cround (fmod x 1023)"
proof (cases "0 \<le> x")
  case True
  from fmod_nonneg(1)[OF True, of 1023] have "- 1023 < fmod x 1023" by simp
  from cround_lower[OF this] show ?thesis by simp
next
  case False
  then have "x < 0" by simp
  from fmod_neg(2)[OF this, of 1023] have "- 1023 < fmod x 1023" by simp
  from cround_lower[OF this] show ?thesis by simp
qed

lemma chip_index_nonneg:
  assumes "- (3 / 2) < x"
  shows "0 \<le> 1 + cround (fmod x 1023)"
proof (cases "0 \<le> x")
  case True
  from fmod_nonneg(1)[OF True, of 1023] have "- (3 / 2) < fmod x 1023" by simp
  from cround_lower_one[OF this] show ?thesis by simp
next
  case False
  then have "x < 0" by simp
  moreover have "- 1023 < x" using assms by simp
  ultimately have "fmod x 1023 = x" by (simp add: fmod_small_neg)
  with cround_lower_one[OF assms] show ?thesis by simp
qed

lemma code_length_int: "real_of_int (ctrunc GPS_L1_CA_CODE_LENGTH_CHIPS) = 1023"
  by (simp add: GPS_L1_CA_CODE_LENGTH_CHIPS_def ctrunc_def)

section \<open>Properties of the tracking engine\<close>

subsection \<open>The code replicas and the code table\<close>

lemma epl_loop_in_range:
  "length ca = 1025 \<Longrightarrow> 0 \<le> step \<Longrightarrow> - (3 / 2) < tcode - spc \<Longrightarrow>
     \<exists>early. epl_loop ca spc step n tcode = Inr early \<and> length early = n"
proof (induction n arbitrary: tcode)
  case 0
  then show ?case by simp
next
  case (Suc n)
  have "- (3 / 2) < (tcode + step) - spc" using Suc.prems by simp
  from Suc.IH[OF Suc.prems(1,2) this] obtain early where
    e: "epl_loop ca spc step n (tcode + step) = Inr early" "length early = n" by blast
  from chip_index_nonneg[OF Suc.prems(3)] chip_index_upper[of "tcode - spc"] Suc.prems(1) e
  show ?case by (simp add: code_length_int Let_def)
qed

lemma epl_loop_m_in_range:
  "length ca = 1025 \<Longrightarrow>
     \<exists>early. epl_loop_m ca spc step n tcode = Inr early \<and> length early = n"
proof (induction n arbitrary: tcode)
  case 0
  then show ?case by simp
next
  case (Suc n)
  from Suc.IH[OF Suc.prems] obtain early where
    e: "epl_loop_m ca spc step n (tcode + step) = Inr early" "length early = n" by blast
  from chip_index_lower[of "tcode - spc"] chip_index_upper[of "tcode - spc"] Suc.prems e
  show ?case by (simp add: code_length_int Let_def)
qed

lemma update_local_code_in_range:
  assumes len: "length (d_ca_code s) = 1025"
    and rem: "\<bar>d_rem_code_phase_samples s\<bar> < 1"
    and spc: "d_early_late_spc_chips p \<le> 1 / 2"
    and cf: "0 < d_code_freq_chips s" "d_code_freq_chips s \<le> real_of_int (d_fs_in p)"
  shows "\<exists>r. update_local_code p s = Inr r"
proof -
  let ?fs = "real_of_int (d_fs_in p)"
  let ?step = "d_code_freq_chips s / ?fs"
  have fs: "0 < ?fs" using cf by linarith
  then have fs0: "d_fs_in p \<noteq> 0" by auto
  have step: "0 < ?step" "?step \<le> 1" using cf fs by simp_all
  have "d_rem_code_phase_samples s * ?step < 1"
  proof (cases "d_rem_code_phase_samples s \<le> 0")
    case True
    have "0 \<le> ?step" using step(1) by simp
    from mult_nonpos_nonneg[OF True this] show ?thesis by linarith
  next
    case False
    then have "0 \<le> d_rem_code_phase_samples s" by simp
    from mult_left_mono[OF step(2) this] rem show ?thesis by linarith
  qed
  then have t: "- (3 / 2) < - (d_rem_code_phase_samples s * ?step) - d_early_late_spc_chips p"
    using spc by linarith
  from step(1) have s0: "0 \<le> ?step" by simp
  from epl_loop_in_range[OF len s0 t] obtain early where
    "epl_loop (d_ca_code s) (d_early_late_spc_chips p) ?step
       (nat (d_current_prn_length_samples s + cround (d_early_late_spc_chips p / ?step) * 2))
       (- (d_rem_code_phase_samples s * ?step)) = Inr early"
    by blast
  then show ?thesis
    using fs0 cf(1) by (simp add: update_local_code_def Let_def)
qed

lemma update_local_code_m_in_range:
  assumes len: "length (d_ca_code s) = 1025"
    and "d_fs_in p \<noteq> 0" and "d_code_freq_chips s \<noteq> 0"
  shows "\<exists>r. update_local_code_m p s = Inr r"
proof -
  let ?step = "d_code_freq_chips s / real_of_int (d_fs_in p)"
  from epl_loop_m_in_range[OF len] obtain early where
    "epl_loop_m (d_ca_code s) (d_early_late_spc_chips p) ?step
       (nat (d_current_prn_length_samples_m s + cround (d_early_late_spc_chips p / ?step) * 2))
       (- (d_rem_code_phase_samples_m s * ?step)) = Inr early"
    by blast
  then show ?thesis
    using assms(2,3) by (simp add: update_local_code_m_def Let_def)
qed

lemma seed_ca_code_table:
  assumes "length ca = 1025" and "length chips = 1023"
  shows "\<exists>ca'. seed_ca_code ca chips = Inr ca' \<and> length ca' = 1025
     \<and> ca' ! 0 = last chips \<and> ca' ! 1024 = hd chips \<and> (\<forall>i < 1023. ca' ! Suc i = chips ! i)"
proof -
  have n: "nat (ctrunc GPS_L1_CA_CODE_LENGTH_CHIPS) = 1023"
    "nat (ctrunc GPS_L1_CA_CODE_LENGTH_CHIPS + 1) = 1024"
    by (simp_all add: GPS_L1_CA_CODE_LENGTH_CHIPS_def ctrunc_def)
  define ca1 where "ca1 = take 1 ca @ chips @ drop 1024 ca"
  have w: "write_code ca chips = Inr ca1"
    using assms by (simp add: write_code_def ca1_def)
  have l1: "length ca1 = 1025" using assms by (simp add: ca1_def)
  have ne: "chips \<noteq> []" using assms(2) by auto
  have mid: "\<And>i. i < 1023 \<Longrightarrow> ca1 ! Suc i = chips ! i"
    using assms by (simp add: ca1_def nth_append)
  have "ca1 ! 1023 = chips ! 1022" using mid[of 1022] by simp
  then have a: "ca1 ! 1023 = last chips"
    using assms(2) ne by (simp add: last_conv_nth)
  have "ca1 ! 1 = chips ! 0" using mid[of 0] by simp
  then have b: "ca1 ! 1 = hd chips" using ne by (simp add: hd_conv_nth)
  define ca2 where "ca2 = ca1[0 := ca1 ! 1023]"
  define ca3 where "ca3 = ca2[1024 := ca2 ! 1]"
  have s: "seed_ca_code ca chips = Inr ca3"
    using w l1 by (simp add: seed_ca_code_def copy_chip_def n ca2_def ca3_def)
  have "length ca3 = 1025" using l1 by (simp add: ca3_def ca2_def)
  moreover have "ca3 ! 0 = last chips" using l1 a by (simp add: ca3_def ca2_def)
  moreover have "ca3 ! 1024 = hd chips" using l1 b by (simp add: ca3_def ca2_def)
  moreover have "\<forall>i < 1023. ca3 ! Suc i = chips ! i"
    using mid l1 by (simp add: ca3_def ca2_def)
  ultimately show ?thesis using s by blast
qed

lemma start_tracking_table:
  "start_tracking p acq chips s0 = Inr s1 \<Longrightarrow> seed_ca_code (d_ca_code s0) chips = Inr (d_ca_code s1)"
  by (auto simp: start_tracking_def Let_def split: if_splits sum.splits)

lemma epl_loop_first_out_of_range:
  assumes "0 < n"
    and "1 + cround (fmod (tcode - spc) 1023) < 0"
  shows "epl_loop ca spc step n tcode = Inl Out_Of_Range"
proof -
  from assms(1) obtain m where "n = Suc m" by (cases n) auto
  with assms(2) show ?thesis by (simp add: code_length_int Let_def)
qed

lemma start_tracking_succeeds:
  assumes "d_fs_in p \<noteq> 0" and "GPS_L1_FREQ_HZ p \<noteq> 0" and "GPS_L1_CA_CODE_RATE_HZ p \<noteq> 0"
    and "GPS_L1_FREQ_HZ p + Acq_doppler_hz acq \<noteq> 0"
    and "length (d_ca_code s0) = 1025" and "length chips = 1023"
  shows "\<exists>s1. start_tracking p acq chips s0 = Inr s1 \<and> d_rem_code_phase_samples s1 = 0
     \<and> d_code_freq_chips s1
         = (GPS_L1_FREQ_HZ p + Acq_doppler_hz acq) / GPS_L1_FREQ_HZ p * GPS_L1_CA_CODE_RATE_HZ p
     \<and> d_pull_in s1 \<and> d_enable_tracking s1 \<and> CADLL_init s1 = CADLL_init s0"
proof -
  from seed_ca_code_table[OF assms(5,6)] obtain ca where
    "seed_ca_code (d_ca_code s0) chips = Inr ca" by blast
  with assms(1-4) show ?thesis
    by (simp add: start_tracking_def Let_def)
qed

subsection \<open>The structure of one call\<close>

lemma pll_update_frame:
  "pll_update p inp s =
     s\<lparr>d_carrier_doppler_hz := d_carrier_doppler_hz (pll_update p inp s),
       d_code_freq_chips := d_code_freq_chips (pll_update p inp s),
       d_acc_carrier_phase_rad := d_acc_carrier_phase_rad (pll_update p inp s),
       d_rem_carr_phase_rad := d_rem_carr_phase_rad (pll_update p inp s)\<rparr>"
  by (simp add: pll_update_def Let_def)

lemma pll_update_fields:
  "d_carrier_doppler_hz (pll_update p inp s)
     = d_acq_carrier_doppler_hz s + get_carrier_nco inp (carr_error_hz inp)"
  "d_code_freq_chips (pll_update p inp s)
     = GPS_L1_CA_CODE_RATE_HZ p
       + (d_carrier_doppler_hz (pll_update p inp s) * GPS_L1_CA_CODE_RATE_HZ p) / GPS_L1_FREQ_HZ p"
  by (simp_all add: pll_update_def Let_def)

lemma dll_update_frame:
  "dll_update cefs cefs_m s =
     s\<lparr>d_acc_code_phase_secs := d_acc_code_phase_secs (dll_update cefs cefs_m s),
       d_acc_code_phase_secs_m := d_acc_code_phase_secs_m (dll_update cefs cefs_m s)\<rparr>"
  by (simp add: dll_update_def Let_def split: option.splits)

lemma nco_update_frame:
  "nco_update p cefs cefs_m s =
     s\<lparr>d_rem_code_phase_samples_m := d_rem_code_phase_samples_m (nco_update p cefs cefs_m s),
       d_current_prn_length_samples := cround (K_blk_samples p cefs s),
       d_current_prn_length_samples_m := cround (K_blk_samples_m p cefs cefs_m s),
       d_sample_counter_f := d_sample_counter_f (nco_update p cefs cefs_m s),
       d_sample_counter_fm := d_sample_counter_fm (nco_update p cefs cefs_m s)\<rparr>"
  by (simp add: nco_update_def Let_def)

lemma amplitude_loops_frame:
  "amplitude_loops inp s = Inr s' \<Longrightarrow> s' = s\<lparr>a1 := a1 s', a2 := a2 s'\<rparr>"
  by (auto simp: amplitude_loops_def Let_def split: if_splits)

lemma lock_evaluation_frame:
  "lock_evaluation p inp s =
     s\<lparr>d_cn0_estimation_counter := 0,
       d_CN0_SNV_dB_Hz := cn0_svn_estimator inp (d_Prompt_buffer s),
       d_carrier_lock_test := carrier_lock_detector inp (d_Prompt_buffer s),
       d_carrier_lock_fail_counter := d_carrier_lock_fail_counter (lock_evaluation p inp s),
       d_queue := d_queue (lock_evaluation p inp s),
       d_enable_tracking := d_enable_tracking (lock_evaluation p inp s)\<rparr>"
  by (simp add: lock_evaluation_def Let_def)

lemma cn0_and_lock_detectors_frame:
  "cn0_and_lock_detectors p inp s = Inr s' \<Longrightarrow>
     s' = s\<lparr>d_cn0_estimation_counter := d_cn0_estimation_counter s',
            d_Prompt_buffer := d_Prompt_buffer s',
            d_CN0_SNV_dB_Hz := d_CN0_SNV_dB_Hz s',
            d_carrier_lock_test := d_carrier_lock_test s',
            d_carrier_lock_fail_counter := d_carrier_lock_fail_counter s',
            d_queue := d_queue s',
            d_enable_tracking := d_enable_tracking s'\<rparr>"
  by (auto simp: cn0_and_lock_detectors_def lock_evaluation_def Let_def split: if_splits)

lemma steady_state_stepE:
  assumes "steady_state_step p inp s = Inr (s', out)"
  obtains cefs cefs_m s3 s4 s5 s6 where
    "d_fs_in p \<noteq> 0" and "GPS_L1_FREQ_HZ p \<noteq> 0" and "GPS_L1_CA_CODE_RATE_HZ p \<noteq> 0"
    and "code_error_filt_secs p inp = Inr cefs"
    and "if CADLL_init s then cefs_m = None
         else (\<exists>c. code_error_filt_secs_m p inp = Inr c \<and> cefs_m = Some c)"
    and "s3 = dll_update cefs cefs_m (pll_update p inp s)"
    and "d_code_freq_chips s3 \<noteq> 0"
    and "s4 = nco_update p cefs cefs_m s3"
    and "amplitude_loops inp s4 = Inr s5"
    and "cn0_and_lock_detectors p inp s5 = Inr s6"
    and "(s', out) = output_and_align p inp (K_blk_samples p cefs s3)
                       (K_blk_samples_m p cefs cefs_m s3) s6"
proof -
  have c: "CADLL_init (pll_update p inp s) = CADLL_init s"
    by (subst pll_update_frame) simp
  from assms show ?thesis
    by (auto simp: steady_state_step_def Let_def c map_sum_def intro!: that
        split: if_splits sum.splits)
qed

lemma general_work_steady:
  assumes "trk_general_work p inp s = Inr (s', out, consumed)" and "steady inp s"
  obtains t r where "steady_state_step p inp s = Inr (t, r)" and "s' = advance_counters t"
    and "out = Some r" and "consumed = d_current_prn_length_samples t"
  using assms
  by (auto simp: trk_general_work_def steady_def split: sum.splits prod.splits)

lemma amplitude_loops_Inr:
  "amplitude_loops inp s = Inr s' \<Longrightarrow> \<exists>x y. s' = s\<lparr>a1 := x, a2 := y\<rparr>"
  by (auto simp: amplitude_loops_def Let_def split: if_splits)

lemma cn0_and_lock_detectors_Inr:
  "cn0_and_lock_detectors p inp s = Inr s' \<Longrightarrow>
     \<exists>n b c l f q e.
       s' = s\<lparr>d_cn0_estimation_counter := n, d_Prompt_buffer := b, d_CN0_SNV_dB_Hz := c,
              d_carrier_lock_test := l, d_carrier_lock_fail_counter := f, d_queue := q,
              d_enable_tracking := e\<rparr>"
  by (drule cn0_and_lock_detectors_frame) blast

lemma cn0_lock_fields:
  assumes "cn0_and_lock_detectors p inp s = Inr s'"
  shows "d_queue s' =
           (if CN0_ESTIMATION_SAMPLES \<le> d_cn0_estimation_counter s
               \<and> MAXIMUM_LOCK_FAIL_COUNTER < next_fail_counter inp s \<and> d_queue_present p
            then d_queue s @ [(d_channel p, 2)] else d_queue s)"
    and "d_carrier_lock_fail_counter s' =
           (if CN0_ESTIMATION_SAMPLES \<le> d_cn0_estimation_counter s
            then (if MAXIMUM_LOCK_FAIL_COUNTER < next_fail_counter inp s then 0
                  else next_fail_counter inp s)
            else d_carrier_lock_fail_counter s)"
    and "d_enable_tracking s' =
           (d_enable_tracking s
            \<and> \<not> (CN0_ESTIMATION_SAMPLES \<le> d_cn0_estimation_counter s
                  \<and> MAXIMUM_LOCK_FAIL_COUNTER < next_fail_counter inp s))"
  using assms
  by (auto simp: cn0_and_lock_detectors_def lock_evaluation_def next_fail_counter_def Let_def
      split: if_splits)

lemma steady_state_step_result:
  assumes "steady_state_step p inp s = Inr (t, r)"
  obtains cefs cefs_m K K_m ts where
    "code_error_filt_secs p inp = Inr cefs"
    and "if CADLL_init s then cefs_m = None
         else (\<exists>c. code_error_filt_secs_m p inp = Inr c \<and> cefs_m = Some c)"
    and "K = T_prn_samples p (pll_update p inp s) + d_rem_code_phase_samples s
               + cefs * real_of_int (d_fs_in p)"
    and "K_m = (case cefs_m of None \<Rightarrow> K
                | Some c \<Rightarrow> T_prn_samples p (pll_update p inp s) + d_rem_code_phase_samples_m s
                    + c * real_of_int (d_fs_in p))"
    and "ts = (real (unat (d_sample_counter s)) + d_rem_code_phase_samples s)
                / real_of_int (d_fs_in p)"
    and "Tracking_timestamp_secs r = ts"
    and "d_current_prn_length_samples t = cround K"
    and "d_current_prn_length_samples_m t = cround K_m"
    and "d_rem_code_phase_samples t = K - real_of_int (cround K)"
    and "d_rem_code_phase_samples_m t =
           (if CADLL_init s \<and> 1 < ts then d_rem_code_phase_samples t - 27
            else K_m - real_of_int (cround K))"
    and "CADLL_init t = (CADLL_init s \<and> \<not> 1 < ts)"
    and "d_acc_code_phase_secs t = d_acc_code_phase_secs s + cefs"
    and "d_acc_code_phase_secs_m t =
           (if CADLL_init s then (if 1 < ts then d_acc_code_phase_secs t else d_acc_code_phase_secs_m s)
            else d_acc_code_phase_secs_m s + the cefs_m)"
    and "d_carrier_doppler_hz t = d_carrier_doppler_hz (pll_update p inp s)"
    and "d_code_freq_chips t = d_code_freq_chips (pll_update p inp s)"
    and "d_sample_counter t = d_sample_counter s"
    and "d_ca_code t = d_ca_code s"
    and "d_pull_in t = d_pull_in s"
    and "d_queue t =
           (if CN0_ESTIMATION_SAMPLES \<le> d_cn0_estimation_counter s
               \<and> MAXIMUM_LOCK_FAIL_COUNTER < next_fail_counter inp s \<and> d_queue_present p
            then d_queue s @ [(d_channel p, 2)] else d_queue s)"
    and "d_carrier_lock_fail_counter t =
           (if CN0_ESTIMATION_SAMPLES \<le> d_cn0_estimation_counter s
            then (if MAXIMUM_LOCK_FAIL_COUNTER < next_fail_counter inp s then 0
                  else next_fail_counter inp s)
            else d_carrier_lock_fail_counter s)"
    and "d_enable_tracking t =
           (d_enable_tracking s
            \<and> \<not> (CN0_ESTIMATION_SAMPLES \<le> d_cn0_estimation_counter s
                  \<and> MAXIMUM_LOCK_FAIL_COUNTER < next_fail_counter inp s))"
proof -
  from assms obtain cefs cefs_m s3 s4 s5 s6 where
    h: "code_error_filt_secs p inp = Inr cefs"
       "if CADLL_init s then cefs_m = None
        else (\<exists>c. code_error_filt_secs_m p inp = Inr c \<and> cefs_m = Some c)"
    and s3: "s3 = dll_update cefs cefs_m (pll_update p inp s)"
    and s4: "s4 = nco_update p cefs cefs_m s3"
    and s5: "amplitude_loops inp s4 = Inr s5"
    and s6: "cn0_and_lock_detectors p inp s5 = Inr s6"
    and o: "(t, r) = output_and_align p inp (K_blk_samples p cefs s3)
                       (K_blk_samples_m p cefs cefs_m s3) s6"
    by (rule steady_state_stepE)
  from amplitude_loops_Inr[OF s5] obtain x y where e5: "s5 = s4\<lparr>a1 := x, a2 := y\<rparr>" by blast
  from cn0_and_lock_detectors_Inr[OF s6] obtain n b c l f q e where
    e6: "s6 = s5\<lparr>d_cn0_estimation_counter := n, d_Prompt_buffer := b, d_CN0_SNV_dB_Hz := c,
              d_carrier_lock_test := l, d_carrier_lock_fail_counter := f, d_queue := q,
              d_enable_tracking := e\<rparr>" by blast
  note lk = cn0_lock_fields[OF s6]
  define P where "P = pll_update p inp s"
  have P: "P = s\<lparr>d_carrier_doppler_hz := d_carrier_doppler_hz P,
       d_code_freq_chips := d_code_freq_chips P,
       d_acc_carrier_phase_rad := d_acc_carrier_phase_rad P,
       d_rem_carr_phase_rad := d_rem_carr_phase_rad P\<rparr>"
    unfolding P_def by (rule pll_update_frame)
  have T: "T_prn_samples p s3 = T_prn_samples p P"
    unfolding s3 P_def[symmetric]
    by (simp add: T_prn_samples_def dll_update_def Let_def split: option.splits)
  have r3: "d_rem_code_phase_samples s3 = d_rem_code_phase_samples s"
    "d_rem_code_phase_samples_m s3 = d_rem_code_phase_samples_m s"
    "CADLL_init s3 = CADLL_init s" "d_sample_counter s3 = d_sample_counter s"
    "d_ca_code s3 = d_ca_code s" "d_pull_in s3 = d_pull_in s"
    "d_queue s3 = d_queue s" "d_carrier_lock_fail_counter s3 = d_carrier_lock_fail_counter s"
    "d_enable_tracking s3 = d_enable_tracking s"
    "d_cn0_estimation_counter s3 = d_cn0_estimation_counter s"
    "d_Prompt_buffer s3 = d_Prompt_buffer s"
    "d_carrier_lock_threshold s3 = d_carrier_lock_threshold s"
    "d_carrier_doppler_hz s3 = d_carrier_doppler_hz P"
    "d_code_freq_chips s3 = d_code_freq_chips P"
    unfolding s3 P_def[symmetric]
    by (subst P, simp add: dll_update_def Let_def split: option.splits)+
  have a3: "d_acc_code_phase_secs s3 = d_acc_code_phase_secs s + cefs"
    "d_acc_code_phase_secs_m s3 =
       (case cefs_m of None \<Rightarrow> d_acc_code_phase_secs_m s | Some c \<Rightarrow> d_acc_code_phase_secs_m s + c)"
    unfolding s3 P_def[symmetric]
    by (subst P, simp add: dll_update_def Let_def split: option.splits)+
  define K where "K = K_blk_samples p cefs s3"
  define K_m where "K_m = K_blk_samples_m p cefs cefs_m s3"
  have K: "K = T_prn_samples p P + d_rem_code_phase_samples s + cefs * real_of_int (d_fs_in p)"
    by (simp add: K_def K_blk_samples_def T r3)
  have K_m: "K_m = (case cefs_m of None \<Rightarrow> K
                | Some c \<Rightarrow> T_prn_samples p P + d_rem_code_phase_samples_m s
                    + c * real_of_int (d_fs_in p))"
    by (simp add: K_m_def K_def K_blk_samples_m_def T r3 split: option.splits)
  have nf: "next_fail_counter inp s5 = next_fail_counter inp s"
    unfolding e5 s4 by (simp add: next_fail_counter_def nco_update_def Let_def r3)
  have c5: "d_cn0_estimation_counter s5 = d_cn0_estimation_counter s" "d_queue s5 = d_queue s"
    "d_carrier_lock_fail_counter s5 = d_carrier_lock_fail_counter s"
    "d_enable_tracking s5 = d_enable_tracking s"
    unfolding e5 s4 by (simp_all add: nco_update_def Let_def r3)
  define ts where "ts = (real (unat (d_sample_counter s)) + d_rem_code_phase_samples s)
                / real_of_int (d_fs_in p)"
  have cm: "CADLL_init s \<Longrightarrow> cefs_m = None" "\<not> CADLL_init s \<Longrightarrow> cefs_m \<noteq> None"
    using h(2) by (auto split: if_splits)
  have tr: "t = fst (output_and_align p inp K K_m s6)" "r = snd (output_and_align p inp K K_m s6)"
    using o unfolding K_def K_m_def by (metis fst_conv, metis snd_conv)
  have g6: "d_sample_counter s6 = d_sample_counter s"
    "d_rem_code_phase_samples s6 = d_rem_code_phase_samples s"
    "CADLL_init s6 = CADLL_init s"
    "d_current_prn_length_samples s6 = cround K"
    "d_current_prn_length_samples_m s6 = cround K_m"
    "d_acc_code_phase_secs s6 = d_acc_code_phase_secs s + cefs"
    "d_acc_code_phase_secs_m s6 =
       (case cefs_m of None \<Rightarrow> d_acc_code_phase_secs_m s | Some c \<Rightarrow> d_acc_code_phase_secs_m s + c)"
    "d_carrier_doppler_hz s6 = d_carrier_doppler_hz P"
    "d_code_freq_chips s6 = d_code_freq_chips P"
    "d_ca_code s6 = d_ca_code s" "d_pull_in s6 = d_pull_in s"
    unfolding e6 e5 s4 by (simp_all add: nco_update_def Let_def r3 a3 K_def K_m_def)
  have f1: "Tracking_timestamp_secs r = ts"
    unfolding tr(2) by (simp add: output_and_align_def Let_def g6 ts_def)
  have f2: "d_current_prn_length_samples t = cround K"
    "d_current_prn_length_samples_m t = cround K_m"
    "d_rem_code_phase_samples t = K - real_of_int (cround K)"
    "CADLL_init t = (CADLL_init s \<and> \<not> 1 < ts)"
    "d_acc_code_phase_secs t = d_acc_code_phase_secs s + cefs"
    "d_carrier_doppler_hz t = d_carrier_doppler_hz (pll_update p inp s)"
    "d_code_freq_chips t = d_code_freq_chips (pll_update p inp s)"
    "d_sample_counter t = d_sample_counter s"
    "d_ca_code t = d_ca_code s"
    "d_pull_in t = d_pull_in s"
    unfolding tr(1) by (auto simp: output_and_align_def Let_def g6 ts_def P_def)
  have f3: "d_rem_code_phase_samples_m t =
           (if CADLL_init s \<and> 1 < ts then d_rem_code_phase_samples t - 27
            else K_m - real_of_int (cround K))"
    unfolding tr(1) by (simp add: output_and_align_def Let_def g6 ts_def)
  have f4: "d_acc_code_phase_secs_m t =
           (if CADLL_init s then (if 1 < ts then d_acc_code_phase_secs t else d_acc_code_phase_secs_m s)
            else d_acc_code_phase_secs_m s + the cefs_m)"
    unfolding tr(1) using cm
    by (auto simp: output_and_align_def Let_def g6 ts_def split: option.splits)
  have q6: "d_queue t = d_queue s6" "d_carrier_lock_fail_counter t = d_carrier_lock_fail_counter s6"
    "d_enable_tracking t = d_enable_tracking s6"
    unfolding tr(1) by (simp_all add: output_and_align_def Let_def)
  have f5: "d_queue t =
           (if CN0_ESTIMATION_SAMPLES \<le> d_cn0_estimation_counter s
               \<and> MAXIMUM_LOCK_FAIL_COUNTER < next_fail_counter inp s \<and> d_queue_present p
            then d_queue s @ [(d_channel p, 2)] else d_queue s)"
    "d_carrier_lock_fail_counter t =
           (if CN0_ESTIMATION_SAMPLES \<le> d_cn0_estimation_counter s
            then (if MAXIMUM_LOCK_FAIL_COUNTER < next_fail_counter inp s then 0
                  else next_fail_counter inp s)
            else d_carrier_lock_fail_counter s)"
    "d_enable_tracking t =
           (d_enable_tracking s
            \<and> \<not> (CN0_ESTIMATION_SAMPLES \<le> d_cn0_estimation_counter s
                  \<and> MAXIMUM_LOCK_FAIL_COUNTER < next_fail_counter inp s))"
    unfolding q6 lk nf c5 by simp_all
  note K' = K[unfolded P_def] and K_m' = K_m[unfolded P_def]
  show ?thesis
    by (rule that[of cefs cefs_m K K_m ts]) (fact h K' K_m' ts_def f1 f2 f3 f4 f5)+
qed

lemma advance_counters_fields:
  "d_current_prn_length_samples (advance_counters t) = d_current_prn_length_samples t"
  "d_current_prn_length_samples_m (advance_counters t) = d_current_prn_length_samples_m t"
  "d_rem_code_phase_samples (advance_counters t) = d_rem_code_phase_samples t"
  "d_rem_code_phase_samples_m (advance_counters t) = d_rem_code_phase_samples_m t"
  "CADLL_init (advance_counters t) = CADLL_init t"
  "d_acc_code_phase_secs (advance_counters t) = d_acc_code_phase_secs t"
  "d_acc_code_phase_secs_m (advance_counters t) = d_acc_code_phase_secs_m t"
  "d_carrier_doppler_hz (advance_counters t) = d_carrier_doppler_hz t"
  "d_code_freq_chips (advance_counters t) = d_code_freq_chips t"
  "d_ca_code (advance_counters t) = d_ca_code t"
  "d_queue (advance_counters t) = d_queue t"
  "d_carrier_lock_fail_counter (advance_counters t) = d_carrier_lock_fail_counter t"
  "d_enable_tracking (advance_counters t) = d_enable_tracking t"
  by (simp_all add: advance_counters_def)

lemma general_work_not_steady:
  assumes "trk_general_work p inp s = Inr (s', out, consumed)" and "\<not> steady inp s"
  shows "CADLL_init s' = CADLL_init s" and "d_queue s' = d_queue s"
    and "d_ca_code s' = d_ca_code s"
    and "d_rem_code_phase_samples_m s' = d_rem_code_phase_samples_m s"
    and "d_carrier_lock_fail_counter s' = d_carrier_lock_fail_counter s"
    and "d_enable_tracking s' = d_enable_tracking s"
    and "d_enable_tracking s \<and> d_pull_in s \<longrightarrow> out = None"
    and "\<not> d_enable_tracking s \<longrightarrow> out = Some (acquisition_gnss_synchro inp)"
    and "d_enable_tracking s \<and> \<not> d_pull_in s \<longrightarrow>
           (\<exists>r. out = Some r \<and> Tracking_timestamp_secs r =
              real (unat (d_sample_counter s + word_of_int (trk_ninput_items inp)))
                / real_of_int (d_fs_in p))"
  using assms
  by (auto simp: trk_general_work_def steady_def pull_in_def nan_block_def advance_counters_def
      Let_def split: sum.splits prod.splits if_splits)

lemma general_work_keeps_code_table:
  assumes "trk_general_work p inp s = Inr (s', out, consumed)"
  shows "d_ca_code s' = d_ca_code s"
proof (cases "steady inp s")
  case True
  with assms obtain t r where st: "steady_state_step p inp s = Inr (t, r)"
    and s': "s' = advance_counters t"
    by (rule general_work_steady)
  from st have "d_ca_code t = d_ca_code s" by (rule steady_state_step_result) simp
  then show ?thesis by (simp add: s' advance_counters_fields)
next
  case False
  from general_work_not_steady(3)[OF assms False] show ?thesis .
qed

lemma general_work_steady_eval:
  assumes "steady inp s" and "\<exists>r. update_local_code p s = Inr r"
    and "\<exists>r. update_local_code_m p s = Inr r"
  shows "trk_general_work p inp s =
           (case steady_state_step p inp s of
              Inl e \<Rightarrow> Inl e
            | Inr (t, r) \<Rightarrow> Inr (advance_counters t, Some r, d_current_prn_length_samples t))"
  using assms by (auto simp: trk_general_work_def steady_def)

lemma general_work_nan_eval:
  assumes "d_enable_tracking s" and "\<not> d_pull_in s" and "Prompt_isnan inp"
    and "\<exists>r. update_local_code p s = Inr r" and "\<exists>r. update_local_code_m p s = Inr r"
  shows "trk_general_work p inp s =
           (case nan_block p inp s of (s', r, consumed) \<Rightarrow> Inr (s', Some r, consumed))"
  using assms by (auto simp: trk_general_work_def)

lemma steady_state_step_succeeds:
  assumes "d_fs_in p \<noteq> 0" and "GPS_L1_FREQ_HZ p \<noteq> 0" and "GPS_L1_CA_CODE_RATE_HZ p \<noteq> 0"
    and "cmod (d_Early inp) + cmod (d_Late inp) \<noteq> 0"
    and "\<not> CADLL_init s \<Longrightarrow> cmod (d_Early_m inp) + cmod (d_Late_m inp) \<noteq> 0"
    and "\<not> CADLL_init s \<Longrightarrow> Re (d_Prompt inp) + Re (d_Prompt_m inp) \<noteq> 0"
    and "d_code_freq_chips (pll_update p inp s) \<noteq> 0"
    and "CN0_ESTIMATION_SAMPLES \<le> d_cn0_estimation_counter s
         \<or> (0 \<le> d_cn0_estimation_counter s
             \<and> d_cn0_estimation_counter s < int (length (d_Prompt_buffer s)))"
  shows "\<exists>t r. steady_state_step p inp s = Inr (t, r)"
proof -
  define P where "P = pll_update p inp s"
  have P: "CADLL_init P = CADLL_init s" "d_cn0_estimation_counter P = d_cn0_estimation_counter s"
    "d_Prompt_buffer P = d_Prompt_buffer s"
    unfolding P_def by (subst pll_update_frame, simp)+
  have "\<exists>cefs. code_error_filt_secs p inp = Inr cefs"
    using assms(4) by (simp add: code_error_filt_secs_def dll_nc_e_minus_l_normalized_def)
  then obtain cefs where c: "code_error_filt_secs p inp = Inr cefs" by blast
  have "\<exists>cefs_m.
    (if \<not> CADLL_init P then map_sum id Some (code_error_filt_secs_m p inp) else Inr None)
       = Inr cefs_m"
    using assms(5) P(1)
    by (cases "CADLL_init s")
      (simp_all add: code_error_filt_secs_m_def dll_nc_e_minus_l_normalized_def)
  then obtain cefs_m where cm:
    "(if \<not> CADLL_init P then map_sum id Some (code_error_filt_secs_m p inp) else Inr None)
       = Inr cefs_m" by blast
  define s3 where "s3 = dll_update cefs cefs_m P"
  define s4 where "s4 = nco_update p cefs cefs_m s3"
  have f3: "d_code_freq_chips s3 \<noteq> 0"
    using assms(7) unfolding s3_def P_def[symmetric]
    by (simp add: dll_update_def Let_def split: option.splits)
  have i4: "CADLL_init s4 = CADLL_init s" "d_cn0_estimation_counter s4 = d_cn0_estimation_counter s"
    "d_Prompt_buffer s4 = d_Prompt_buffer s"
    unfolding s4_def s3_def
    by (simp_all add: nco_update_def dll_update_def Let_def P split: option.splits)
  have "\<exists>s5. amplitude_loops inp s4 = Inr s5"
    using assms(6) i4(1) by (cases "CADLL_init s") (simp_all add: amplitude_loops_def Let_def)
  then obtain s5 where s5: "amplitude_loops inp s4 = Inr s5" by blast
  from amplitude_loops_Inr[OF s5] obtain x y where e5: "s5 = s4\<lparr>a1 := x, a2 := y\<rparr>" by blast
  have "\<exists>s6. cn0_and_lock_detectors p inp s5 = Inr s6"
    using assms(8) unfolding e5 by (auto simp: cn0_and_lock_detectors_def i4)
  then obtain s6 where s6: "cn0_and_lock_detectors p inp s5 = Inr s6" by blast
  show ?thesis
    using assms(1,2,3) c cm f3 s5 s6
    by (simp add: steady_state_step_def Let_def P_def[symmetric] s3_def[symmetric] s4_def[symmetric])
qed

lemma start_tracking_keeps_init:
  "start_tracking p acq chips s = Inr t \<Longrightarrow> CADLL_init t = CADLL_init s"
  by (auto simp: start_tracking_def Let_def split: if_splits sum.splits)

lemma stop_tracking_keeps_init: "CADLL_init (stop_tracking p s) = CADLL_init s"
  by (simp add: stop_tracking_def)

lemma steady_state_step_division:
  assumes "d_fs_in p \<noteq> 0" and "GPS_L1_FREQ_HZ p \<noteq> 0" and "GPS_L1_CA_CODE_RATE_HZ p \<noteq> 0"
    and "cmod (d_Early inp) + cmod (d_Late inp) \<noteq> 0"
    and "cmod (d_Early_m inp) + cmod (d_Late_m inp) \<noteq> 0"
    and "d_code_freq_chips (pll_update p inp s) \<noteq> 0"
    and "\<not> CADLL_init s" and "Re (d_Prompt inp) + Re (d_Prompt_m inp) = 0"
  shows "steady_state_step p inp s = Inl Division_By_Zero"
proof -
  define P where "P = pll_update p inp s"
  have P: "CADLL_init P = CADLL_init s"
    unfolding P_def by (subst pll_update_frame, simp)
  have "\<exists>cefs. code_error_filt_secs p inp = Inr cefs"
    using assms(4) by (simp add: code_error_filt_secs_def dll_nc_e_minus_l_normalized_def)
  then obtain cefs where c: "code_error_filt_secs p inp = Inr cefs" by blast
  have "\<exists>c. code_error_filt_secs_m p inp = Inr c"
    using assms(5) by (simp add: code_error_filt_secs_m_def dll_nc_e_minus_l_normalized_def)
  then obtain cm where cm: "code_error_filt_secs_m p inp = Inr cm" by blast
  define s3 where "s3 = dll_update cefs (Some cm) P"
  define s4 where "s4 = nco_update p cefs (Some cm) s3"
  have f3: "d_code_freq_chips s3 \<noteq> 0"
    using assms(6) unfolding s3_def P_def[symmetric]
    by (simp add: dll_update_def Let_def)
  have i4: "\<not> CADLL_init s4"
    using assms(7) unfolding s4_def s3_def
    by (simp add: nco_update_def dll_update_def Let_def P)
  have a: "amplitude_loops inp s4 = Inl Division_By_Zero"
    using i4 assms(8) by (simp add: amplitude_loops_def Let_def)
  show ?thesis
    using assms(1,2,3,7) c cm f3 a
    by (simp add: steady_state_step_def Let_def P_def[symmetric] P s3_def[symmetric] s4_def[symmetric])
qed

lemma amplitude_loops_value:
  "amplitude_loops inp s =
     (if CADLL_init s
      then Inr (s\<lparr>a1 := get_amplitude_nco inp (1 / (99 / 100)),
                  a2 := get_amplitude_nco inp (1 / (99 / 100)) / (1284025416687741 / 1000000000000000)\<rparr>)
      else if Re (d_Prompt inp) + Re (d_Prompt_m inp) = 0 then Inl Division_By_Zero
      else Inr (s\<lparr>a1 := get_amplitude_nco inp
                         (corr_CADLL inp / (Re (d_Prompt inp) + Re (d_Prompt_m inp))
                            * Re (d_Prompt inp) / (99 / 100)),
                  a2 := get_amplitude_nco_m inp
                         (corr_CADLL inp / (Re (d_Prompt inp) + Re (d_Prompt_m inp))
                            * Re (d_Prompt_m inp) / (99 / 100))\<rparr>))"
  by (simp add: amplitude_loops_def Let_def)

lemma steady_state_step_amplitude:
  assumes "steady_state_step p inp s = Inr (t, r)" and "\<not> CADLL_init s"
  shows "Re (d_Prompt inp) + Re (d_Prompt_m inp) \<noteq> 0"
    and "a1 t = get_amplitude_nco inp
                  (corr_CADLL inp / (Re (d_Prompt inp) + Re (d_Prompt_m inp))
                     * Re (d_Prompt inp) / (99 / 100))"
    and "a2 t = get_amplitude_nco_m inp
                  (corr_CADLL inp / (Re (d_Prompt inp) + Re (d_Prompt_m inp))
                     * Re (d_Prompt_m inp) / (99 / 100))"
proof -
  from assms(1) obtain cefs cefs_m s3 s4 s5 s6 where
    s3: "s3 = dll_update cefs cefs_m (pll_update p inp s)"
    and s4: "s4 = nco_update p cefs cefs_m s3"
    and s5: "amplitude_loops inp s4 = Inr s5"
    and s6: "cn0_and_lock_detectors p inp s5 = Inr s6"
    and o: "(t, r) = output_and_align p inp (K_blk_samples p cefs s3)
                       (K_blk_samples_m p cefs cefs_m s3) s6"
    by (rule steady_state_stepE)
  have c: "CADLL_init (pll_update p inp s) = CADLL_init s"
    by (subst pll_update_frame) simp
  have i4: "\<not> CADLL_init s4"
    unfolding s4 s3 using assms(2)
    by (simp add: nco_update_def dll_update_def Let_def c split: option.splits)
  from s5 i4 show nz: "Re (d_Prompt inp) + Re (d_Prompt_m inp) \<noteq> 0"
    by (auto simp: amplitude_loops_value split: if_splits)
  from s5 i4 nz have a5: "a1 s5 = get_amplitude_nco inp
                  (corr_CADLL inp / (Re (d_Prompt inp) + Re (d_Prompt_m inp))
                     * Re (d_Prompt inp) / (99 / 100))"
    "a2 s5 = get_amplitude_nco_m inp
                  (corr_CADLL inp / (Re (d_Prompt inp) + Re (d_Prompt_m inp))
                     * Re (d_Prompt_m inp) / (99 / 100))"
    by (auto simp: amplitude_loops_value)
  from cn0_and_lock_detectors_Inr[OF s6] have a6: "a1 s6 = a1 s5" "a2 s6 = a2 s5" by auto
  have tr: "t = fst (output_and_align p inp (K_blk_samples p cefs s3)
                       (K_blk_samples_m p cefs cefs_m s3) s6)"
    using o by (metis fst_conv)
  have at: "a1 t = a1 s6" "a2 t = a2 s6"
    unfolding tr by (simp_all add: output_and_align_def Let_def)
  show "a1 t = get_amplitude_nco inp
                  (corr_CADLL inp / (Re (d_Prompt inp) + Re (d_Prompt_m inp))
                     * Re (d_Prompt inp) / (99 / 100))"
    and "a2 t = get_amplitude_nco_m inp
                  (corr_CADLL inp / (Re (d_Prompt inp) + Re (d_Prompt_m inp))
                     * Re (d_Prompt_m inp) / (99 / 100))"
    by (simp_all add: at a6 a5)
qed

lemma advance_counters_amplitude:
  "a1 (advance_counters t) = a1 t" "a2 (advance_counters t) = a2 t"
  by (simp_all add: advance_counters_def)

lemma lock_evaluation_fields:
  "d_carrier_lock_fail_counter (lock_evaluation p inp s)
     = (if MAXIMUM_LOCK_FAIL_COUNTER < next_fail_counter inp s then 0 else next_fail_counter inp s)"
  "d_queue (lock_evaluation p inp s)
     = (if MAXIMUM_LOCK_FAIL_COUNTER < next_fail_counter inp s \<and> d_queue_present p
        then d_queue s @ [(d_channel p, 2)] else d_queue s)"
  "d_enable_tracking (lock_evaluation p inp s)
     = (d_enable_tracking s \<and> \<not> MAXIMUM_LOCK_FAIL_COUNTER < next_fail_counter inp s)"
  "lock_failing inp (lock_evaluation p inp s) = lock_failing inp s"
  by (simp_all add: lock_evaluation_def next_fail_counter_def lock_failing_def Let_def)

lemma failing_run:
  assumes "lock_failing inp s" and "d_carrier_lock_fail_counter s = 0"
  shows "n \<le> 50 \<Longrightarrow>
     d_carrier_lock_fail_counter ((lock_evaluation p inp ^^ n) s) = int n
     \<and> d_queue ((lock_evaluation p inp ^^ n) s) = d_queue s
     \<and> d_enable_tracking ((lock_evaluation p inp ^^ n) s) = d_enable_tracking s
     \<and> lock_failing inp ((lock_evaluation p inp ^^ n) s)"
proof (induction n)
  case 0
  with assms show ?case by simp
next
  case (Suc n)
  then have ih: "d_carrier_lock_fail_counter ((lock_evaluation p inp ^^ n) s) = int n"
    "d_queue ((lock_evaluation p inp ^^ n) s) = d_queue s"
    "d_enable_tracking ((lock_evaluation p inp ^^ n) s) = d_enable_tracking s"
    "lock_failing inp ((lock_evaluation p inp ^^ n) s)"
    by simp_all
  have nf: "next_fail_counter inp ((lock_evaluation p inp ^^ n) s) = int n + 1"
    using ih(1,4) by (simp add: next_fail_counter_def lock_failing_def)
  show ?case
    using Suc.prems ih
    by (simp add: lock_evaluation_fields nf MAXIMUM_LOCK_FAIL_COUNTER_def)
qed

lemma failing_run_trips:
  assumes "lock_failing inp s" and "d_carrier_lock_fail_counter s = 0"
  shows "d_queue ((lock_evaluation p inp ^^ 51) s)
           = (if d_queue_present p then d_queue s @ [(d_channel p, 2)] else d_queue s)
     \<and> \<not> d_enable_tracking ((lock_evaluation p inp ^^ 51) s)
     \<and> d_carrier_lock_fail_counter ((lock_evaluation p inp ^^ 51) s) = 0"
proof -
  have e: "(lock_evaluation p inp ^^ 51) s = lock_evaluation p inp ((lock_evaluation p inp ^^ 50) s)"
    by (simp add: eval_nat_numeral)
  from failing_run[OF assms, of 50 p]
  have ih: "d_carrier_lock_fail_counter ((lock_evaluation p inp ^^ 50) s) = 50"
    "d_queue ((lock_evaluation p inp ^^ 50) s) = d_queue s"
    "lock_failing inp ((lock_evaluation p inp ^^ 50) s)"
    by simp_all
  have nf: "next_fail_counter inp ((lock_evaluation p inp ^^ 50) s) = 51"
    using ih(1,3) by (simp add: next_fail_counter_def lock_failing_def)
  show ?thesis
    unfolding e by (simp add: lock_evaluation_fields nf ih MAXIMUM_LOCK_FAIL_COUNTER_def)
qed

subsection \<open>The examples\<close>

lemmas trk_examples = trk_params0_def trk_state0_def trk_input0_def nan_input_def
  quadrature_input_def cancelling_input_def failing_input_def init_state_def skewed_state_def
  cadll_state_def evaluation_state_def synchro0_def

lemma init_state_ranges:
  assumes "d_ca_code s = replicate 1025 0" and "d_rem_code_phase_samples s = r" and "\<bar>r\<bar> < 1"
    and "d_code_freq_chips s = 1023000"
  shows "\<exists>r. update_local_code trk_params0 s = Inr r"
    and "\<exists>r. update_local_code_m trk_params0 s = Inr r"
proof -
  show "\<exists>r. update_local_code trk_params0 s = Inr r"
    by (rule update_local_code_in_range) (use assms in \<open>simp_all add: trk_params0_def\<close>)
  show "\<exists>r. update_local_code_m trk_params0 s = Inr r"
    by (rule update_local_code_m_in_range) (use assms in \<open>simp_all add: trk_params0_def\<close>)
qed

lemma pll_update_example:
  assumes "d_acq_carrier_doppler_hz s = 0" and "get_carrier_nco inp = (\<lambda>x. x)"
    and "Re (d_Prompt inp) = 2" and "Im (d_Prompt inp) = 0"
  shows "d_code_freq_chips (pll_update trk_params0 inp s) = 1023000"
    and "T_prn_samples trk_params0 (pll_update trk_params0 inp s) = 2046"
    and "d_carrier_doppler_hz (pll_update trk_params0 inp s) = 0"
  using assms
  by (simp_all add: pll_update_def T_prn_samples_def Let_def trk_params0_def carr_error_hz_def
      pll_cloop_two_quadrant_atan_def atan2_def GPS_L1_CA_CODE_LENGTH_CHIPS_def)

lemma example_codes:
  "code_error_filt_secs trk_params0 trk_input0 = Inr 0"
  "code_error_filt_secs_m trk_params0 trk_input0 = Inr 0"
  "code_error_filt_secs trk_params0 failing_input = Inr 0"
  by (simp_all add: code_error_filt_secs_def code_error_filt_secs_m_def
      dll_nc_e_minus_l_normalized_def trk_examples)

lemma example_step:
  assumes s: "s = init_state\<lparr>CADLL_init := ci, d_rem_code_phase_samples_m := rm,
                  d_cn0_estimation_counter := cn, d_carrier_lock_fail_counter := fc\<rparr>"
    and inp: "inp = trk_input0\<lparr>carrier_lock_detector := ld\<rparr>"
    and cn: "cn = 0 \<or> cn = 20"
  shows "\<exists>s' out n. trk_general_work trk_params0 inp s = Inr (s', out, n)
           \<and> map_option Tracking_timestamp_secs out = Some 2"
proof -
  have st: "steady inp s" by (simp add: steady_def s inp trk_examples)
  have r: "\<exists>r. update_local_code trk_params0 s = Inr r"
    "\<exists>r. update_local_code_m trk_params0 s = Inr r"
    by (rule init_state_ranges[of _ 0]; simp add: s trk_examples)+
  have f: "d_code_freq_chips (pll_update trk_params0 inp s) = 1023000"
    by (rule pll_update_example) (simp_all add: s inp trk_examples)
  have "\<exists>t r. steady_state_step trk_params0 inp s = Inr (t, r)"
  proof (rule steady_state_step_succeeds)
    show "CN0_ESTIMATION_SAMPLES \<le> d_cn0_estimation_counter s
         \<or> (0 \<le> d_cn0_estimation_counter s
             \<and> d_cn0_estimation_counter s < int (length (d_Prompt_buffer s)))"
      using cn by (auto simp: s trk_examples CN0_ESTIMATION_SAMPLES_def)
  qed (simp_all add: f, simp_all add: s inp trk_examples)
  then obtain t r where ss: "steady_state_step trk_params0 inp s = Inr (t, r)" by blast
  from ss have "Tracking_timestamp_secs r =
      (real (unat (d_sample_counter s)) + d_rem_code_phase_samples s)
        / real_of_int (d_fs_in trk_params0)"
    by (rule steady_state_step_result) simp
  then have "Tracking_timestamp_secs r = 2" by (simp add: s trk_examples)
  then show ?thesis
    unfolding general_work_steady_eval[OF st r] ss by simp
qed

lemma example_states:
  "cadll_state = init_state\<lparr>CADLL_init := False, d_rem_code_phase_samples_m := - 27,
                    d_cn0_estimation_counter := 0, d_carrier_lock_fail_counter := 0\<rparr>"
  "init_state = init_state\<lparr>CADLL_init := True, d_rem_code_phase_samples_m := 0,
                    d_cn0_estimation_counter := 0, d_carrier_lock_fail_counter := 0\<rparr>"
  "evaluation_state = init_state\<lparr>CADLL_init := True, d_rem_code_phase_samples_m := 0,
                    d_cn0_estimation_counter := 20, d_carrier_lock_fail_counter := 50\<rparr>"
  "trk_input0 = trk_input0\<lparr>carrier_lock_detector := (\<lambda>b. 1)\<rparr>"
  "failing_input = trk_input0\<lparr>carrier_lock_detector := (\<lambda>b. 0)\<rparr>"
  by (simp_all add: trk_examples)

lemmas cadll_step = example_step[OF example_states(1) example_states(4), simplified]

lemmas init_step = example_step[OF example_states(2) example_states(4), simplified]

lemmas trip_step = example_step[OF example_states(3) example_states(5), simplified]

lemma example_steady:
  "steady trk_input0 cadll_state" "steady trk_input0 init_state"
  "steady failing_input evaluation_state"
  by (simp_all add: steady_def trk_examples)

lemma example_pll:
  "T_prn_samples trk_params0 (pll_update trk_params0 trk_input0 cadll_state) = 2046"
  "carr_error_hz trk_input0 = 0"
  by (simp_all add: pll_update_def T_prn_samples_def Let_def carr_error_hz_def
      pll_cloop_two_quadrant_atan_def atan2_def GPS_L1_CA_CODE_LENGTH_CHIPS_def trk_examples)

lemma cadll_step_succeeds:
  "\<exists>s' out n. trk_general_work trk_params0 trk_input0 cadll_state = Inr (s', out, n)"
proof -
  have st: "steady trk_input0 cadll_state" by (simp add: steady_def trk_examples)
  have r: "\<exists>r. update_local_code trk_params0 cadll_state = Inr r"
    "\<exists>r. update_local_code_m trk_params0 cadll_state = Inr r"
    by (rule init_state_ranges[of _ 0]; simp add: trk_examples)+
  have f: "d_code_freq_chips (pll_update trk_params0 trk_input0 cadll_state) = 1023000"
    by (rule pll_update_example) (simp_all add: trk_examples)
  have "\<exists>t r. steady_state_step trk_params0 trk_input0 cadll_state = Inr (t, r)"
    by (rule steady_state_step_succeeds) (simp_all add: f, simp_all add: trk_examples CN0_ESTIMATION_SAMPLES_def)
  then show ?thesis
    unfolding general_work_steady_eval[OF st r] by auto
qed

lemma cadll_step_fields:
  "\<exists>s' out n. trk_general_work trk_params0 trk_input0 cadll_state = Inr (s', out, n)
     \<and> d_current_prn_length_samples s' = 2046 \<and> d_rem_code_phase_samples s' = 0
     \<and> d_current_prn_length_samples_m s' = 2019 \<and> d_rem_code_phase_samples_m s' = - 27
     \<and> map_option Tracking_timestamp_secs out = Some 2"
proof -
  from cadll_step_succeeds obtain s' out n where
    gw: "trk_general_work trk_params0 trk_input0 cadll_state = Inr (s', out, n)" by blast
  have st: "steady trk_input0 cadll_state" by (simp add: steady_def trk_examples)
  from gw st obtain t r where ss: "steady_state_step trk_params0 trk_input0 cadll_state = Inr (t, r)"
    and s': "s' = advance_counters t" and o: "out = Some r"
    by (rule general_work_steady)
  have T: "T_prn_samples trk_params0 (pll_update trk_params0 trk_input0 cadll_state) = 2046"
    by (rule pll_update_example) (simp_all add: trk_examples)
  have c: "CADLL_init cadll_state = False" "d_rem_code_phase_samples cadll_state = 0"
    "d_rem_code_phase_samples_m cadll_state = - 27" "d_sample_counter cadll_state = 4092000"
    "real_of_int (d_fs_in trk_params0) = 2046000"
    by (simp_all add: trk_examples)
  from ss have "d_current_prn_length_samples t = 2046 \<and> d_rem_code_phase_samples t = 0
     \<and> d_current_prn_length_samples_m t = 2019 \<and> d_rem_code_phase_samples_m t = - 27
     \<and> Tracking_timestamp_secs r = 2"
  proof (rule steady_state_step_result)
    fix cefs cefs_m K K_m ts
    assume h: "code_error_filt_secs trk_params0 trk_input0 = Inr cefs"
      "if CADLL_init cadll_state then cefs_m = None
       else (\<exists>c. code_error_filt_secs_m trk_params0 trk_input0 = Inr c \<and> cefs_m = Some c)"
      "K = T_prn_samples trk_params0 (pll_update trk_params0 trk_input0 cadll_state)
             + d_rem_code_phase_samples cadll_state + cefs * real_of_int (d_fs_in trk_params0)"
      "K_m = (case cefs_m of None \<Rightarrow> K
                | Some c \<Rightarrow> T_prn_samples trk_params0 (pll_update trk_params0 trk_input0 cadll_state)
                    + d_rem_code_phase_samples_m cadll_state
                    + c * real_of_int (d_fs_in trk_params0))"
      "ts = (real (unat (d_sample_counter cadll_state)) + d_rem_code_phase_samples cadll_state)
                / real_of_int (d_fs_in trk_params0)"
      "Tracking_timestamp_secs r = ts"
      "d_current_prn_length_samples t = cround K"
      "d_current_prn_length_samples_m t = cround K_m"
      "d_rem_code_phase_samples t = K - real_of_int (cround K)"
      "d_rem_code_phase_samples_m t =
           (if CADLL_init cadll_state \<and> 1 < ts then d_rem_code_phase_samples t - 27
            else K_m - real_of_int (cround K))"
    from h(1) have cefs: "cefs = 0" by (simp add: example_codes)
    from h(2) have cefs_m: "cefs_m = Some 0" by (simp add: example_codes c)
    have K: "K = 2046" using h(3) by (simp add: T c cefs)
    have K_m: "K_m = 2019" using h(4) by (simp add: T c cefs_m)
    have ts: "ts = 2" using h(5) by (simp add: c)
    show ?thesis
      using h(6-10) by (simp add: K K_m ts c cround_def)
  qed
  with gw show ?thesis by (auto simp: s' o advance_counters_fields)
qed

lemma nan_step:
  "trk_general_work trk_params0 nan_input skewed_state =
     Inr (skewed_state\<lparr>d_sample_counter := 4096092\<rparr>,
          Some (synchro0\<lparr>Prompt_I := 0, Prompt_Q := 0, Tracking_timestamp_secs := 1001 / 500,
                  Carrier_phase_rads := 0, Code_phase_secs := 0, CN0_dB_hz := 0,
                  Flag_valid_tracking := False\<rparr>),
          4092)"
proof -
  have r: "\<exists>r. update_local_code trk_params0 skewed_state = Inr r"
    "\<exists>r. update_local_code_m trk_params0 skewed_state = Inr r"
    by (rule init_state_ranges[of _ "1 / 4"]; simp add: trk_examples)+
  have c: "d_enable_tracking skewed_state" "\<not> d_pull_in skewed_state" "Prompt_isnan nan_input"
    by (simp_all add: trk_examples)
  show ?thesis
    unfolding general_work_nan_eval[OF c r]
    by (simp add: nan_block_def Let_def trk_examples)
qed

lemma cancelling_step:
  "trk_general_work trk_params0 cancelling_input cadll_state = Inl Division_By_Zero"
proof -
  have st: "steady cancelling_input cadll_state" by (simp add: steady_def trk_examples)
  have r: "\<exists>r. update_local_code trk_params0 cadll_state = Inr r"
    "\<exists>r. update_local_code_m trk_params0 cadll_state = Inr r"
    by (rule init_state_ranges[of _ 0]; simp add: trk_examples)+
  have f: "d_code_freq_chips (pll_update trk_params0 cancelling_input cadll_state) = 1023000"
    by (rule pll_update_example) (simp_all add: trk_examples)
  have "steady_state_step trk_params0 cancelling_input cadll_state = Inl Division_By_Zero"
    by (rule steady_state_step_division) (simp_all add: f, simp_all add: trk_examples)
  then show ?thesis
    unfolding general_work_steady_eval[OF st r] by simp
qed

subsection \<open>Claims\<close>

text \<open>
  Claim C2, as amended. On a steady-state step, with \<open>T_prn_samples\<close> taken at the
  code frequency the PLL has just set, \<open>K_blk = T_prn_samples + rem_code_phase_samples +
  code_error_filt_secs * fs_in\<close>, the new \<open>current_prn_length_samples\<close> is
  \<open>round K_blk\<close> and the new \<open>rem_code_phase_samples\<close> is \<open>K_blk\<close> minus it. In
  the initialization phase the secondary length equals the primary one, and so does the
  secondary remnant unless this step promotes to CADLL mode. In CADLL mode the secondary
  computes \<open>K_blk_m\<close> from its own remnant and its own filtered code error and rounds
  it to its own length, but its new remnant is \<open>K_blk_m\<close> minus the primary length
  \<open>current_prn_length_samples\<close>.
\<close>

theorem code_nco_update:
  assumes "trk_general_work p inp s = Inr (s', out, consumed)" and "steady inp s"
  shows "\<exists>cefs. code_error_filt_secs p inp = Inr cefs \<and>
     (let K_blk = T_prn_samples p (pll_update p inp s) + d_rem_code_phase_samples s
                    + cefs * real_of_int (d_fs_in p)
      in d_current_prn_length_samples s' = cround K_blk
       \<and> d_rem_code_phase_samples s' = K_blk - real_of_int (d_current_prn_length_samples s')
       \<and> (CADLL_init s \<longrightarrow>
             d_current_prn_length_samples_m s' = d_current_prn_length_samples s'
           \<and> (CADLL_init s' \<longrightarrow> d_rem_code_phase_samples_m s' = d_rem_code_phase_samples s'))
       \<and> (\<not> CADLL_init s \<longrightarrow>
             (\<exists>cefs_m. code_error_filt_secs_m p inp = Inr cefs_m \<and>
                (let K_blk_m = T_prn_samples p (pll_update p inp s) + d_rem_code_phase_samples_m s
                                 + cefs_m * real_of_int (d_fs_in p)
                 in d_current_prn_length_samples_m s' = cround K_blk_m
                  \<and> d_rem_code_phase_samples_m s'
                      = K_blk_m - real_of_int (d_current_prn_length_samples s')))))"
proof -
  from assms obtain t r where st: "steady_state_step p inp s = Inr (t, r)"
    and s': "s' = advance_counters t"
    by (rule general_work_steady)
  from st show ?thesis
  proof (rule steady_state_step_result)
    fix cefs cefs_m K K_m ts
    assume h: "code_error_filt_secs p inp = Inr cefs"
      "if CADLL_init s then cefs_m = None
       else (\<exists>c. code_error_filt_secs_m p inp = Inr c \<and> cefs_m = Some c)"
      "K = T_prn_samples p (pll_update p inp s) + d_rem_code_phase_samples s
               + cefs * real_of_int (d_fs_in p)"
      "K_m = (case cefs_m of None \<Rightarrow> K
                | Some c \<Rightarrow> T_prn_samples p (pll_update p inp s) + d_rem_code_phase_samples_m s
                    + c * real_of_int (d_fs_in p))"
      "d_current_prn_length_samples t = cround K"
      "d_current_prn_length_samples_m t = cround K_m"
      "d_rem_code_phase_samples t = K - real_of_int (cround K)"
      "d_rem_code_phase_samples_m t =
           (if CADLL_init s \<and> 1 < ts then d_rem_code_phase_samples t - 27
            else K_m - real_of_int (cround K))"
      "CADLL_init t = (CADLL_init s \<and> \<not> 1 < ts)"
    show ?thesis
    proof (cases "CADLL_init s")
      case True
      with h show ?thesis
        by (auto simp: s' advance_counters_fields Let_def)
    next
      case False
      with h(2) obtain c where c: "code_error_filt_secs_m p inp = Inr c" "cefs_m = Some c"
        by auto
      with False h show ?thesis
        by (auto simp: s' advance_counters_fields Let_def)
    qed
  qed
qed

theorem code_nco_update_witness:
  "\<exists>s' out n. trk_general_work trk_params0 trk_input0 cadll_state = Inr (s', out, n)
     \<and> d_current_prn_length_samples s' = 2046 \<and> d_rem_code_phase_samples s' = 0
     \<and> d_current_prn_length_samples_m s' = 2019 \<and> d_rem_code_phase_samples_m s' = - 27"
proof -
  from cadll_step obtain s' out n where
    gw: "trk_general_work trk_params0 trk_input0 cadll_state = Inr (s', out, n)" by blast
  have c: "\<not> CADLL_init cadll_state" "d_rem_code_phase_samples cadll_state = 0"
    "d_rem_code_phase_samples_m cadll_state = - 27" "real_of_int (d_fs_in trk_params0) = 2046000"
    by (simp_all add: trk_examples)
  from code_nco_update[OF gw example_steady(1)]
  have "d_current_prn_length_samples s' = 2046 \<and> d_rem_code_phase_samples s' = 0
     \<and> d_current_prn_length_samples_m s' = 2019 \<and> d_rem_code_phase_samples_m s' = - 27"
    by (simp add: example_codes example_pll c Let_def cround_def)
  with gw show ?thesis by blast
qed

theorem secondary_remnant_keeps_offset:
  "map_sum id (d_rem_code_phase_samples_m \<circ> fst)
     (trk_general_work trk_params0 trk_input0 cadll_state) = Inr (- 27)
   \<and> map_sum id (d_current_prn_length_samples_m \<circ> fst)
     (trk_general_work trk_params0 trk_input0 cadll_state) = Inr 2019
   \<and> code_error_filt_secs_m trk_params0 trk_input0 = Inr 0
   \<and> T_prn_samples trk_params0 (pll_update trk_params0 trk_input0 cadll_state)
       + d_rem_code_phase_samples_m cadll_state + 0 * real_of_int (d_fs_in trk_params0) = 2019
   \<and> \<not> CADLL_init cadll_state"
proof -
  from cadll_step_fields obtain s' out n where
    "trk_general_work trk_params0 trk_input0 cadll_state = Inr (s', out, n)"
    "d_current_prn_length_samples_m s' = 2019" "d_rem_code_phase_samples_m s' = - 27"
    by blast
  then show ?thesis
    by (simp add: example_codes example_pll) (simp add: trk_examples)
qed

text \<open>
  Claim C4, as amended. The record of a steady-state step carries
  \<open>(sample_counter + rem_code_phase_samples) / fs_in\<close> with the values at the start of
  the period. The record of a NaN-skipped block carries the sample counter advanced by the
  available samples, divided by \<open>fs_in\<close>, without the remnant code phase. While
  tracking is disabled the emitted record is the acquisition record unchanged, and the
  pull-in call writes no record.
\<close>

theorem tracking_timestamp:
  assumes "trk_general_work p inp s = Inr (s', out, consumed)"
  shows "(d_enable_tracking s \<and> \<not> d_pull_in s \<and> \<not> Prompt_isnan inp \<longrightarrow>
            (\<exists>r. out = Some r \<and> Tracking_timestamp_secs r =
               (real (unat (d_sample_counter s)) + d_rem_code_phase_samples s)
                 / real_of_int (d_fs_in p)))
       \<and> (d_enable_tracking s \<and> \<not> d_pull_in s \<and> Prompt_isnan inp \<longrightarrow>
            (\<exists>r. out = Some r \<and> Tracking_timestamp_secs r =
               real (unat (d_sample_counter s + word_of_int (trk_ninput_items inp)))
                 / real_of_int (d_fs_in p)))
       \<and> (\<not> d_enable_tracking s \<longrightarrow> out = Some (acquisition_gnss_synchro inp))
       \<and> (d_enable_tracking s \<and> d_pull_in s \<longrightarrow> out = None)"
proof (cases "steady inp s")
  case True
  with assms obtain t r where st: "steady_state_step p inp s = Inr (t, r)" and o: "out = Some r"
    by (rule general_work_steady)
  from st have "Tracking_timestamp_secs r =
      (real (unat (d_sample_counter s)) + d_rem_code_phase_samples s) / real_of_int (d_fs_in p)"
    by (rule steady_state_step_result) simp
  with True o show ?thesis by (simp add: steady_def)
next
  case False
  from general_work_not_steady(7,8,9)[OF assms False] False show ?thesis
    by (auto simp: steady_def)
qed

theorem tracking_timestamp_witness:
  "\<exists>s' out n. trk_general_work trk_params0 trk_input0 cadll_state = Inr (s', out, n)
     \<and> map_option Tracking_timestamp_secs out = Some 2"
proof -
  from cadll_step obtain s' out n where
    gw: "trk_general_work trk_params0 trk_input0 cadll_state = Inr (s', out, n)" by blast
  have c: "d_enable_tracking cadll_state" "\<not> d_pull_in cadll_state" "\<not> Prompt_isnan trk_input0"
    "d_sample_counter cadll_state = 4092000" "d_rem_code_phase_samples cadll_state = 0"
    "real_of_int (d_fs_in trk_params0) = 2046000"
    by (simp_all add: trk_examples)
  from tracking_timestamp[OF gw] have "map_option Tracking_timestamp_secs out = Some 2"
    by (auto simp: c)
  with gw show ?thesis by blast
qed

theorem nan_block_timestamp:
  "emitted_timestamp (trk_general_work trk_params0 nan_input skewed_state) = Some (1001 / 500)
   \<and> (real (unat (d_sample_counter skewed_state)) + d_rem_code_phase_samples skewed_state)
       / real_of_int (d_fs_in trk_params0) = 16368001 / 8184000"
  unfolding nan_step by (simp add: emitted_timestamp_def trk_examples)

text \<open>
  Claim C6, as amended. A call posts the message \<open>(channel, 2)\<close> exactly when it is
  a steady-state step that evaluates the lock detector (the estimation counter has
  reached \<open>CN0_ESTIMATION_SAMPLES\<close>) and the fail counter, after its increment on a
  failing evaluation or its decrement on a passing one, exceeds
  \<open>MAXIMUM_LOCK_FAIL_COUNTER = 50\<close> (and the queue exists); then it posts it once,
  resets the fail counter and clears \<open>enable_tracking\<close>. Otherwise nothing is posted,
  and on an evaluation the counter keeps its new value. From a zero counter, 50 failing
  evaluations in a row post nothing and the 51st posts the message.
\<close>

theorem loss_of_lock:
  assumes "trk_general_work p inp s = Inr (s', out, consumed)"
  shows "d_queue s' =
           (if steady inp s \<and> CN0_ESTIMATION_SAMPLES \<le> d_cn0_estimation_counter s
               \<and> MAXIMUM_LOCK_FAIL_COUNTER < next_fail_counter inp s \<and> d_queue_present p
            then d_queue s @ [(d_channel p, 2)] else d_queue s)
       \<and> (steady inp s \<and> CN0_ESTIMATION_SAMPLES \<le> d_cn0_estimation_counter s
            \<and> MAXIMUM_LOCK_FAIL_COUNTER < next_fail_counter inp s \<longrightarrow>
              d_carrier_lock_fail_counter s' = 0 \<and> \<not> d_enable_tracking s')
       \<and> (steady inp s \<and> CN0_ESTIMATION_SAMPLES \<le> d_cn0_estimation_counter s
            \<and> next_fail_counter inp s \<le> MAXIMUM_LOCK_FAIL_COUNTER \<longrightarrow>
              d_carrier_lock_fail_counter s' = next_fail_counter inp s \<and> d_enable_tracking s')
       \<and> (\<not> (steady inp s \<and> CN0_ESTIMATION_SAMPLES \<le> d_cn0_estimation_counter s) \<longrightarrow>
              d_carrier_lock_fail_counter s' = d_carrier_lock_fail_counter s
            \<and> d_enable_tracking s' = d_enable_tracking s)
       \<and> (lock_failing inp u \<and> d_carrier_lock_fail_counter u = 0 \<longrightarrow>
              d_queue ((lock_evaluation p inp ^^ 50) u) = d_queue u
            \<and> d_enable_tracking ((lock_evaluation p inp ^^ 50) u) = d_enable_tracking u
            \<and> d_queue ((lock_evaluation p inp ^^ 51) u)
                = (if d_queue_present p then d_queue u @ [(d_channel p, 2)] else d_queue u)
            \<and> \<not> d_enable_tracking ((lock_evaluation p inp ^^ 51) u))"
proof -
  have run: "lock_failing inp u \<and> d_carrier_lock_fail_counter u = 0 \<longrightarrow>
              d_queue ((lock_evaluation p inp ^^ 50) u) = d_queue u
            \<and> d_enable_tracking ((lock_evaluation p inp ^^ 50) u) = d_enable_tracking u
            \<and> d_queue ((lock_evaluation p inp ^^ 51) u)
                = (if d_queue_present p then d_queue u @ [(d_channel p, 2)] else d_queue u)
            \<and> \<not> d_enable_tracking ((lock_evaluation p inp ^^ 51) u)"
    using failing_run[of inp u 50 p] failing_run_trips[of inp u p] by simp
  show ?thesis
  proof (cases "steady inp s")
    case True
    with assms obtain t r where st: "steady_state_step p inp s = Inr (t, r)"
      and s': "s' = advance_counters t"
      by (rule general_work_steady)
    from True have en: "d_enable_tracking s" by (simp add: steady_def)
    from st have "d_queue t =
           (if CN0_ESTIMATION_SAMPLES \<le> d_cn0_estimation_counter s
               \<and> MAXIMUM_LOCK_FAIL_COUNTER < next_fail_counter inp s \<and> d_queue_present p
            then d_queue s @ [(d_channel p, 2)] else d_queue s)
      \<and> d_carrier_lock_fail_counter t =
           (if CN0_ESTIMATION_SAMPLES \<le> d_cn0_estimation_counter s
            then (if MAXIMUM_LOCK_FAIL_COUNTER < next_fail_counter inp s then 0
                  else next_fail_counter inp s)
            else d_carrier_lock_fail_counter s)
      \<and> d_enable_tracking t =
           (d_enable_tracking s
            \<and> \<not> (CN0_ESTIMATION_SAMPLES \<le> d_cn0_estimation_counter s
                  \<and> MAXIMUM_LOCK_FAIL_COUNTER < next_fail_counter inp s))"
      by (rule steady_state_step_result) simp
    with True en run show ?thesis
      by (simp add: s' advance_counters_fields)
  next
    case False
    from general_work_not_steady(2,5,6)[OF assms False] False run show ?thesis by simp
  qed
qed

theorem loss_of_lock_witness:
  "\<exists>s' out n. trk_general_work trk_params0 failing_input evaluation_state = Inr (s', out, n)
     \<and> d_queue s' = [(0, 2)] \<and> d_carrier_lock_fail_counter s' = 0 \<and> \<not> d_enable_tracking s'"
proof -
  from trip_step obtain s' out n where
    gw: "trk_general_work trk_params0 failing_input evaluation_state = Inr (s', out, n)" by blast
  have nf: "next_fail_counter failing_input evaluation_state = 51"
    by (simp add: next_fail_counter_def trk_examples)
  have c: "CN0_ESTIMATION_SAMPLES \<le> d_cn0_estimation_counter evaluation_state"
    "d_queue_present trk_params0" "d_queue evaluation_state = []" "d_channel trk_params0 = 0"
    by (simp_all add: CN0_ESTIMATION_SAMPLES_def trk_examples)
  from loss_of_lock[OF gw, of evaluation_state]
  have "d_queue s' = [(0, 2)] \<and> d_carrier_lock_fail_counter s' = 0 \<and> \<not> d_enable_tracking s'"
    by (simp add: example_steady nf c MAXIMUM_LOCK_FAIL_COUNTER_def)
  with gw show ?thesis by blast
qed

theorem fifty_failures_keep_lock:
  "lock_failing failing_input init_state
   \<and> d_carrier_lock_fail_counter init_state = 0
   \<and> d_queue ((lock_evaluation trk_params0 failing_input ^^ 50) init_state) = []
   \<and> d_enable_tracking ((lock_evaluation trk_params0 failing_input ^^ 50) init_state)
   \<and> d_carrier_lock_fail_counter ((lock_evaluation trk_params0 failing_input ^^ 50) init_state) = 50"
proof -
  have h: "lock_failing failing_input init_state" "d_carrier_lock_fail_counter init_state = 0"
    by (simp_all add: lock_failing_def trk_examples)
  from failing_run[OF h, of 50 trk_params0] h show ?thesis
    by (simp add: trk_examples)
qed

text \<open>
  Claim C7, as amended. With the discriminator as the spec defines it,
  \<open>pll_cloop_two_quadrant_atan(P) = atan2(P.imag, P.real) / (2\<pi>)\<close>, a steady-state step
  computes \<open>carr_error_hz\<close> as the discriminator divided once more by \<open>2\<pi>\<close>, then
  \<open>carrier_doppler_hz = Acq_doppler_hz + PLL_filter(carr_error_hz)\<close> and
  \<open>code_freq_chips = GPS_L1_CA_CODE_RATE_HZ * (1 + carrier_doppler_hz / GPS_L1_FREQ_HZ)\<close>.
\<close>

theorem pll_carrier_update:
  assumes "trk_general_work p inp s = Inr (s', out, consumed)" and "steady inp s"
  shows "pll_cloop_two_quadrant_atan (d_Prompt inp)
           = atan2 (Im (d_Prompt inp)) (Re (d_Prompt inp)) / (2 * pi)
       \<and> carr_error_hz inp = pll_cloop_two_quadrant_atan (d_Prompt inp) / (2 * pi)
       \<and> d_carrier_doppler_hz s' = d_acq_carrier_doppler_hz s + get_carrier_nco inp (carr_error_hz inp)
       \<and> d_code_freq_chips s'
           = GPS_L1_CA_CODE_RATE_HZ p * (1 + d_carrier_doppler_hz s' / GPS_L1_FREQ_HZ p)"
proof -
  from assms obtain t r where st: "steady_state_step p inp s = Inr (t, r)"
    and s': "s' = advance_counters t"
    by (rule general_work_steady)
  from st have "d_carrier_doppler_hz t = d_carrier_doppler_hz (pll_update p inp s)
      \<and> d_code_freq_chips t = d_code_freq_chips (pll_update p inp s)"
    by (rule steady_state_step_result) simp
  then show ?thesis
    by (simp add: s' advance_counters_fields pll_update_fields carr_error_hz_def
        pll_cloop_two_quadrant_atan_def GPS_TWO_PI_def algebra_simps)
qed

theorem pll_carrier_update_witness:
  "\<exists>s' out n. trk_general_work trk_params0 trk_input0 cadll_state = Inr (s', out, n)
     \<and> d_carrier_doppler_hz s' = 0 \<and> d_code_freq_chips s' = 1023000"
proof -
  from cadll_step obtain s' out n where
    gw: "trk_general_work trk_params0 trk_input0 cadll_state = Inr (s', out, n)" by blast
  have c: "d_acq_carrier_doppler_hz cadll_state = 0" "get_carrier_nco trk_input0 = (\<lambda>x. x)"
    "GPS_L1_CA_CODE_RATE_HZ trk_params0 = 1023000"
    by (simp_all add: trk_examples)
  from pll_carrier_update[OF gw example_steady(1)]
  have "d_carrier_doppler_hz s' = 0 \<and> d_code_freq_chips s' = 1023000"
    by (simp add: example_pll c)
  with gw show ?thesis by blast
qed

theorem carrier_error_quadrature:
  "carr_error_hz quadrature_input = 1 / (8 * pi)
   \<and> atan2 (Im (d_Prompt quadrature_input)) (Re (d_Prompt quadrature_input)) / (2 * pi) = 1 / 4
   \<and> carr_error_hz quadrature_input \<noteq> 1 / 4"
proof -
  have a: "atan2 (Im (d_Prompt quadrature_input)) (Re (d_Prompt quadrature_input)) = pi / 2"
    by (simp add: atan2_def trk_examples)
  have e: "carr_error_hz quadrature_input = 1 / (8 * pi)"
    by (simp add: carr_error_hz_def pll_cloop_two_quadrant_atan_def a GPS_TWO_PI_def)
  have "1 / (8 * pi) < 1 / 4" using pi_ge_two by (simp add: field_simps)
  with a e show ?thesis by simp
qed

text \<open>
  Claim C8, as amended. \<open>start_tracking\<close> leaves a table of 1025 entries whose
  entry 0 is the last chip and whose entry 1024 is the first chip of the 1023-chip
  sequence, and \<open>general_work\<close> never changes the table. In a state with that table,
  a remnant code phase below one sample in magnitude, an early-late spacing of at most
  half a chip, and at least one sample per chip (\<open>0 < code_freq_chips \<le> fs_in\<close>),
  every table access of \<open>update_local_code\<close> and of \<open>update_local_code_m\<close> is in
  range.
\<close>

theorem code_table_access_in_range:
  assumes "start_tracking p acq chips s0 = Inr s1"
    and "length (d_ca_code s0) = 1025" and "length chips = 1023"
    and "d_ca_code s = d_ca_code s1"
    and "\<bar>d_rem_code_phase_samples s\<bar> < 1"
    and "d_early_late_spc_chips p \<le> 1 / 2"
    and "0 < d_code_freq_chips s" and "d_code_freq_chips s \<le> real_of_int (d_fs_in p)"
  shows "length (d_ca_code s1) = 1025 \<and> d_ca_code s1 ! 0 = last chips
     \<and> d_ca_code s1 ! 1024 = hd chips
     \<and> (\<exists>r. update_local_code p s = Inr r) \<and> (\<exists>r. update_local_code_m p s = Inr r)
     \<and> (trk_general_work p inp s = Inr (s', out, consumed) \<longrightarrow> d_ca_code s' = d_ca_code s)"
proof -
  from seed_ca_code_table[OF assms(2,3)] start_tracking_table[OF assms(1)]
  have t: "length (d_ca_code s1) = 1025" "d_ca_code s1 ! 0 = last chips"
    "d_ca_code s1 ! 1024 = hd chips"
    by auto
  have len: "length (d_ca_code s) = 1025" using t(1) assms(4) by simp
  have fs: "d_fs_in p \<noteq> 0" using assms(7,8) by auto
  have cf: "d_code_freq_chips s \<noteq> 0" using assms(7) by simp
  from t update_local_code_in_range[OF len assms(5,6,7,8)]
    update_local_code_m_in_range[OF len fs cf] general_work_keeps_code_table[of p inp s s' out consumed]
  show ?thesis by blast
qed

theorem code_table_access_in_range_witness:
  "\<exists>s1. start_tracking trk_params0 synchro0 chips0 trk_state0 = Inr s1
     \<and> d_ca_code s1 ! 0 = - 1 \<and> d_ca_code s1 ! 1024 = 1
     \<and> (\<exists>r. update_local_code trk_params0 s1 = Inr r)
     \<and> (\<exists>r. update_local_code_m trk_params0 s1 = Inr r)"
proof -
  have "\<exists>s1. start_tracking trk_params0 synchro0 chips0 trk_state0 = Inr s1
     \<and> d_rem_code_phase_samples s1 = 0
     \<and> d_code_freq_chips s1
         = (GPS_L1_FREQ_HZ trk_params0 + Acq_doppler_hz synchro0) / GPS_L1_FREQ_HZ trk_params0
           * GPS_L1_CA_CODE_RATE_HZ trk_params0
     \<and> d_pull_in s1 \<and> d_enable_tracking s1 \<and> CADLL_init s1 = CADLL_init trk_state0"
    by (rule start_tracking_succeeds) (simp_all add: trk_examples chips0_def)
  then obtain s1 where s1: "start_tracking trk_params0 synchro0 chips0 trk_state0 = Inr s1"
    and f: "d_rem_code_phase_samples s1 = 0" "d_code_freq_chips s1 = 1023000"
    by (auto simp: trk_examples)
  have h: "length (d_ca_code trk_state0) = 1025" "length chips0 = 1023"
    "\<bar>d_rem_code_phase_samples s1\<bar> < 1" "d_early_late_spc_chips trk_params0 \<le> 1 / 2"
    "0 < d_code_freq_chips s1" "d_code_freq_chips s1 \<le> real_of_int (d_fs_in trk_params0)"
    by (simp_all add: f trk_examples chips0_def)
  from code_table_access_in_range[OF s1 h(1,2) refl h(3-6)] s1
  show ?thesis by (auto simp: chips0_def)
qed

theorem primary_index_below_table:
  "update_local_code undersampled_params undersampled_state = Inl Out_Of_Range
   \<and> \<bar>d_rem_code_phase_samples undersampled_state\<bar> < 1 / 2
   \<and> d_early_late_spc_chips undersampled_params \<le> 1 / 2
   \<and> length (d_ca_code undersampled_state) = 1025"
proof -
  have "epl_loop (replicate 1025 0) (1 / 2) (1023 / 500) 500 (- (50127 / 50000)) = Inl Out_Of_Range"
    by (rule epl_loop_first_out_of_range) (simp_all add: fmod_def ctrunc_def cround_def)
  then show ?thesis
    by (simp add: update_local_code_def undersampled_params_def undersampled_state_def
        trk_params0_def trk_state0_def Let_def cround_def)
qed

text \<open>
  Claim C9, as amended. \<open>CADLL_init\<close> is never set again once it is false, and only
  a steady-state step changes it. A steady-state step in the initialization phase whose
  record carries a time stamp above 1 clears \<open>CADLL_init\<close>, seeds the secondary
  remnant with the primary one minus 27 samples and copies the accumulated code phase;
  one whose time stamp is at most 1 stays in the initialization phase with the secondary
  remnant and block length equal to the primary ones.
\<close>

theorem cadll_promotion:
  assumes "trk_general_work p inp s = Inr (s', out, consumed)"
  shows "(\<not> CADLL_init s \<longrightarrow> \<not> CADLL_init s')
       \<and> (\<not> steady inp s \<longrightarrow> CADLL_init s' = CADLL_init s)
       \<and> (steady inp s \<and> CADLL_init s \<longrightarrow>
            (\<exists>r. out = Some r \<and>
               (if 1 < Tracking_timestamp_secs r
                then \<not> CADLL_init s'
                   \<and> d_rem_code_phase_samples_m s' = d_rem_code_phase_samples s' - 27
                   \<and> d_acc_code_phase_secs_m s' = d_acc_code_phase_secs s'
                else CADLL_init s'
                   \<and> d_rem_code_phase_samples_m s' = d_rem_code_phase_samples s'
                   \<and> d_current_prn_length_samples_m s' = d_current_prn_length_samples s')))
       \<and> (start_tracking q acq chips u = Inr t \<longrightarrow> CADLL_init t = CADLL_init u)
       \<and> CADLL_init (stop_tracking q u) = CADLL_init u"
proof -
  have main: "(\<not> CADLL_init s \<longrightarrow> \<not> CADLL_init s')
       \<and> (\<not> steady inp s \<longrightarrow> CADLL_init s' = CADLL_init s)
       \<and> (steady inp s \<and> CADLL_init s \<longrightarrow>
            (\<exists>r. out = Some r \<and>
               (if 1 < Tracking_timestamp_secs r
                then \<not> CADLL_init s'
                   \<and> d_rem_code_phase_samples_m s' = d_rem_code_phase_samples s' - 27
                   \<and> d_acc_code_phase_secs_m s' = d_acc_code_phase_secs s'
                else CADLL_init s'
                   \<and> d_rem_code_phase_samples_m s' = d_rem_code_phase_samples s'
                   \<and> d_current_prn_length_samples_m s' = d_current_prn_length_samples s')))"
  proof (cases "steady inp s")
    case True
    with assms obtain t r where st: "steady_state_step p inp s = Inr (t, r)"
      and s': "s' = advance_counters t" and o: "out = Some r"
      by (rule general_work_steady)
    from st show ?thesis
    proof (rule steady_state_step_result)
      fix cefs cefs_m K K_m ts
      assume h: "if CADLL_init s then cefs_m = None
         else (\<exists>c. code_error_filt_secs_m p inp = Inr c \<and> cefs_m = Some c)"
        "K_m = (case cefs_m of None \<Rightarrow> K
                  | Some c \<Rightarrow> T_prn_samples p (pll_update p inp s) + d_rem_code_phase_samples_m s
                      + c * real_of_int (d_fs_in p))"
        "Tracking_timestamp_secs r = ts"
        "d_current_prn_length_samples t = cround K"
        "d_current_prn_length_samples_m t = cround K_m"
        "d_rem_code_phase_samples t = K - real_of_int (cround K)"
        "d_rem_code_phase_samples_m t =
             (if CADLL_init s \<and> 1 < ts then d_rem_code_phase_samples t - 27
              else K_m - real_of_int (cround K))"
        "CADLL_init t = (CADLL_init s \<and> \<not> 1 < ts)"
        "d_acc_code_phase_secs_m t =
             (if CADLL_init s then (if 1 < ts then d_acc_code_phase_secs t else d_acc_code_phase_secs_m s)
              else d_acc_code_phase_secs_m s + the cefs_m)"
      show ?thesis
      proof (cases "CADLL_init s")
        case True
        with h have "cefs_m = None" by simp
        with h True \<open>steady inp s\<close> show ?thesis
          by (simp add: s' o advance_counters_fields)
      next
        case False
        with h \<open>steady inp s\<close> show ?thesis
          by (simp add: s' o advance_counters_fields)
      qed
    qed
  next
    case False
    from general_work_not_steady(1)[OF assms False] False show ?thesis by simp
  qed
  from main start_tracking_keeps_init[of q acq chips u t] stop_tracking_keeps_init[of q u]
  show ?thesis by blast
qed

theorem cadll_promotion_witness:
  "\<exists>s' out n. trk_general_work trk_params0 trk_input0 init_state = Inr (s', out, n)
     \<and> CADLL_init init_state \<and> \<not> CADLL_init s'
     \<and> d_rem_code_phase_samples_m s' = d_rem_code_phase_samples s' - 27
     \<and> d_acc_code_phase_secs_m s' = d_acc_code_phase_secs s'"
proof -
  from init_step obtain s' out n where
    gw: "trk_general_work trk_params0 trk_input0 init_state = Inr (s', out, n)"
    and ts: "map_option Tracking_timestamp_secs out = Some 2" by blast
  have c: "CADLL_init init_state" by (simp add: trk_examples)
  from cadll_promotion[OF gw] example_steady(2) c ts
  have "\<not> CADLL_init s'
     \<and> d_rem_code_phase_samples_m s' = d_rem_code_phase_samples s' - 27
     \<and> d_acc_code_phase_secs_m s' = d_acc_code_phase_secs s'"
    by auto
  with gw c show ?thesis by blast
qed

theorem nan_block_keeps_initialization:
  "emitted_timestamp (trk_general_work trk_params0 nan_input skewed_state) = Some (1001 / 500)
   \<and> CADLL_init skewed_state
   \<and> map_sum id (CADLL_init \<circ> fst) (trk_general_work trk_params0 nan_input skewed_state) = Inr True
   \<and> map_sum id (d_rem_code_phase_samples_m \<circ> fst)
       (trk_general_work trk_params0 nan_input skewed_state) = Inr 0
   \<and> map_sum id (d_rem_code_phase_samples \<circ> fst)
       (trk_general_work trk_params0 nan_input skewed_state) = Inr (1 / 4)"
  unfolding nan_step by (simp add: emitted_timestamp_def trk_examples)

text \<open>
  Claim C10. In CADLL mode the amplitude step divides the input power by
  \<open>t = Prompt.real + Prompt_m.real\<close> without a guard: for \<open>t \<noteq> 0\<close> it sets
  \<open>a1\<close> and \<open>a2\<close> to the amplitude filters' responses to
  \<open>input_power / t * Prompt.real / 0.99\<close> and \<open>input_power / t * Prompt_m.real / 0.99\<close>,
  and it reaches the division-by-zero branch exactly when \<open>CADLL_init\<close> is false and
  \<open>t = 0\<close>; it has no other failure. A steady-state call of \<open>general_work\<close> in CADLL
  mode that returns has \<open>t \<noteq> 0\<close> and leaves those two values in the state; one with
  \<open>t = 0\<close> whose earlier sections succeed ends in the division-by-zero branch. The
  example after it has \<open>Prompt.real = - Prompt_m.real\<close>.
\<close>

theorem amplitude_division:
  "(amplitude_loops inp s = Inl Division_By_Zero)
     = (\<not> CADLL_init s \<and> Re (d_Prompt inp) + Re (d_Prompt_m inp) = 0)
   \<and> amplitude_loops inp s \<noteq> Inl Out_Of_Range
   \<and> (\<not> CADLL_init s \<and> Re (d_Prompt inp) + Re (d_Prompt_m inp) \<noteq> 0 \<longrightarrow>
         amplitude_loops inp s =
           Inr (s\<lparr>a1 := get_amplitude_nco inp
                         (corr_CADLL inp / (Re (d_Prompt inp) + Re (d_Prompt_m inp))
                            * Re (d_Prompt inp) / (99 / 100)),
                  a2 := get_amplitude_nco_m inp
                         (corr_CADLL inp / (Re (d_Prompt inp) + Re (d_Prompt_m inp))
                            * Re (d_Prompt_m inp) / (99 / 100))\<rparr>))
   \<and> (steady inp s \<and> \<not> CADLL_init s
        \<and> trk_general_work p inp s = Inr (s', out, consumed) \<longrightarrow>
         Re (d_Prompt inp) + Re (d_Prompt_m inp) \<noteq> 0
       \<and> a1 s' = get_amplitude_nco inp
                    (corr_CADLL inp / (Re (d_Prompt inp) + Re (d_Prompt_m inp))
                       * Re (d_Prompt inp) / (99 / 100))
       \<and> a2 s' = get_amplitude_nco_m inp
                    (corr_CADLL inp / (Re (d_Prompt inp) + Re (d_Prompt_m inp))
                       * Re (d_Prompt_m inp) / (99 / 100)))
   \<and> (steady inp s \<and> \<not> CADLL_init s \<and> Re (d_Prompt inp) + Re (d_Prompt_m inp) = 0
        \<and> (\<exists>e. update_local_code p s = Inr e) \<and> (\<exists>e. update_local_code_m p s = Inr e)
        \<and> d_fs_in p \<noteq> 0 \<and> GPS_L1_FREQ_HZ p \<noteq> 0 \<and> GPS_L1_CA_CODE_RATE_HZ p \<noteq> 0
        \<and> cmod (d_Early inp) + cmod (d_Late inp) \<noteq> 0
        \<and> cmod (d_Early_m inp) + cmod (d_Late_m inp) \<noteq> 0
        \<and> d_code_freq_chips (pll_update p inp s) \<noteq> 0 \<longrightarrow>
         trk_general_work p inp s = Inl Division_By_Zero)"
proof -
  have 1: "(amplitude_loops inp s = Inl Division_By_Zero)
     = (\<not> CADLL_init s \<and> Re (d_Prompt inp) + Re (d_Prompt_m inp) = 0)"
    "amplitude_loops inp s \<noteq> Inl Out_Of_Range"
    by (simp_all add: amplitude_loops_value)
  have 2: "\<not> CADLL_init s \<and> Re (d_Prompt inp) + Re (d_Prompt_m inp) \<noteq> 0 \<longrightarrow>
         amplitude_loops inp s =
           Inr (s\<lparr>a1 := get_amplitude_nco inp
                         (corr_CADLL inp / (Re (d_Prompt inp) + Re (d_Prompt_m inp))
                            * Re (d_Prompt inp) / (99 / 100)),
                  a2 := get_amplitude_nco_m inp
                         (corr_CADLL inp / (Re (d_Prompt inp) + Re (d_Prompt_m inp))
                            * Re (d_Prompt_m inp) / (99 / 100))\<rparr>)"
    by (simp add: amplitude_loops_value)
  have 3: "steady inp s \<and> \<not> CADLL_init s
        \<and> trk_general_work p inp s = Inr (s', out, consumed) \<longrightarrow>
         Re (d_Prompt inp) + Re (d_Prompt_m inp) \<noteq> 0
       \<and> a1 s' = get_amplitude_nco inp
                    (corr_CADLL inp / (Re (d_Prompt inp) + Re (d_Prompt_m inp))
                       * Re (d_Prompt inp) / (99 / 100))
       \<and> a2 s' = get_amplitude_nco_m inp
                    (corr_CADLL inp / (Re (d_Prompt inp) + Re (d_Prompt_m inp))
                       * Re (d_Prompt_m inp) / (99 / 100))"
  proof (intro impI, elim conjE)
    assume st: "steady inp s" and ci: "\<not> CADLL_init s"
      and gw: "trk_general_work p inp s = Inr (s', out, consumed)"
    from gw st obtain t r where ss: "steady_state_step p inp s = Inr (t, r)"
      and s': "s' = advance_counters t"
      by (rule general_work_steady)
    from steady_state_step_amplitude[OF ss ci]
    show "Re (d_Prompt inp) + Re (d_Prompt_m inp) \<noteq> 0
       \<and> a1 s' = get_amplitude_nco inp
                    (corr_CADLL inp / (Re (d_Prompt inp) + Re (d_Prompt_m inp))
                       * Re (d_Prompt inp) / (99 / 100))
       \<and> a2 s' = get_amplitude_nco_m inp
                    (corr_CADLL inp / (Re (d_Prompt inp) + Re (d_Prompt_m inp))
                       * Re (d_Prompt_m inp) / (99 / 100))"
      by (simp add: s' advance_counters_amplitude)
  qed
  have 4: "steady inp s \<and> \<not> CADLL_init s \<and> Re (d_Prompt inp) + Re (d_Prompt_m inp) = 0
        \<and> (\<exists>e. update_local_code p s = Inr e) \<and> (\<exists>e. update_local_code_m p s = Inr e)
        \<and> d_fs_in p \<noteq> 0 \<and> GPS_L1_FREQ_HZ p \<noteq> 0 \<and> GPS_L1_CA_CODE_RATE_HZ p \<noteq> 0
        \<and> cmod (d_Early inp) + cmod (d_Late inp) \<noteq> 0
        \<and> cmod (d_Early_m inp) + cmod (d_Late_m inp) \<noteq> 0
        \<and> d_code_freq_chips (pll_update p inp s) \<noteq> 0 \<longrightarrow>
         trk_general_work p inp s = Inl Division_By_Zero"
  proof (intro impI, elim conjE)
    assume st: "steady inp s" and ci: "\<not> CADLL_init s"
      and z: "Re (d_Prompt inp) + Re (d_Prompt_m inp) = 0"
      and r: "\<exists>e. update_local_code p s = Inr e" "\<exists>e. update_local_code_m p s = Inr e"
      and h: "d_fs_in p \<noteq> 0" "GPS_L1_FREQ_HZ p \<noteq> 0" "GPS_L1_CA_CODE_RATE_HZ p \<noteq> 0"
        "cmod (d_Early inp) + cmod (d_Late inp) \<noteq> 0"
        "cmod (d_Early_m inp) + cmod (d_Late_m inp) \<noteq> 0"
        "d_code_freq_chips (pll_update p inp s) \<noteq> 0"
    from steady_state_step_division[OF h ci z]
    show "trk_general_work p inp s = Inl Division_By_Zero"
      unfolding general_work_steady_eval[OF st r] by simp
  qed
  from 1 2 3 4 show ?thesis by blast
qed

theorem amplitude_division_witness:
  "amplitude_loops cancelling_input cadll_state = Inl Division_By_Zero
   \<and> Re (d_Prompt cancelling_input) = - Re (d_Prompt_m cancelling_input)
   \<and> trk_general_work trk_params0 cancelling_input cadll_state = Inl Division_By_Zero
   \<and> (\<exists>s' out n. trk_general_work trk_params0 trk_input0 cadll_state = Inr (s', out, n)
        \<and> a1 s' = 50 / 99 \<and> a2 s' = 50 / 99)"
proof -
  have st: "steady cancelling_input cadll_state" by (simp add: steady_def trk_examples)
  have r: "\<exists>r. update_local_code trk_params0 cadll_state = Inr r"
    "\<exists>r. update_local_code_m trk_params0 cadll_state = Inr r"
    by (rule init_state_ranges[of _ 0]; simp add: trk_examples)+
  have f: "d_code_freq_chips (pll_update trk_params0 cancelling_input cadll_state) = 1023000"
    by (rule pll_update_example) (simp_all add: trk_examples)
  have c: "\<not> CADLL_init cadll_state"
    "Re (d_Prompt cancelling_input) + Re (d_Prompt_m cancelling_input) = 0"
    "d_fs_in trk_params0 \<noteq> 0" "GPS_L1_FREQ_HZ trk_params0 \<noteq> 0"
    "GPS_L1_CA_CODE_RATE_HZ trk_params0 \<noteq> 0"
    "cmod (d_Early cancelling_input) + cmod (d_Late cancelling_input) \<noteq> 0"
    "cmod (d_Early_m cancelling_input) + cmod (d_Late_m cancelling_input) \<noteq> 0"
    by (simp_all add: trk_examples)
  from amplitude_division[of cancelling_input cadll_state trk_params0] st r f c
  have a: "amplitude_loops cancelling_input cadll_state = Inl Division_By_Zero"
    "trk_general_work trk_params0 cancelling_input cadll_state = Inl Division_By_Zero"
    by simp_all
  from cadll_step obtain s' out n where
    gw: "trk_general_work trk_params0 trk_input0 cadll_state = Inr (s', out, n)" by blast
  from amplitude_division[of trk_input0 cadll_state trk_params0 s' out n] gw example_steady(1) c(1)
  have "a1 s' = get_amplitude_nco trk_input0
                    (corr_CADLL trk_input0 / (Re (d_Prompt trk_input0) + Re (d_Prompt_m trk_input0))
                       * Re (d_Prompt trk_input0) / (99 / 100))
       \<and> a2 s' = get_amplitude_nco_m trk_input0
                    (corr_CADLL trk_input0 / (Re (d_Prompt trk_input0) + Re (d_Prompt_m trk_input0))
                       * Re (d_Prompt_m trk_input0) / (99 / 100))"
    by blast
  then have "a1 s' = 50 / 99 \<and> a2 s' = 50 / 99"
    by (simp add: trk_input0_def)
  with a gw c(2) show ?thesis by auto
qed

end
